theory Spec2Isabelle
  imports Complex_Main "HOL-Library.Monad_Syntax"
begin

section \<open>The expiring cache (class WeatherCache)\<close>

text \<open>
  \<^verbatim>\<open>interface CacheEntry<T> { data: T; timestamp: number; }\<close>

  Timestamps are the values of \<^verbatim>\<open>Date.now()\<close>: whole milliseconds. The duration given
  to the constructor is taken in whole milliseconds as well.
\<close>

record 'v CacheEntry =
  data :: 'v
  timestamp :: int

text \<open>
  \<^verbatim>\<open>private cache: Map<string, CacheEntry<any>>; private readonly cacheDuration: number;\<close>
\<close>

record 'v WeatherCache =
  cache :: "string \<rightharpoonup> 'v CacheEntry"
  cacheDuration :: int

definition WeatherCache_new :: "int \<Rightarrow> 'v WeatherCache" where
  "WeatherCache_new cacheDurationMs =
     \<lparr>cache = Map.empty, cacheDuration = cacheDurationMs\<rparr>"

text \<open>
  \<^verbatim>\<open>get<T>(key)\<close>, with the value of \<^verbatim>\<open>Date.now()\<close> passed as \<open>now\<close>. The result is the
  returned value (\<open>None\<close> for \<^verbatim>\<open>null\<close>) and the cache after the call. An entry of the
  map is an object, hence truthy: \<^verbatim>\<open>if (entry)\<close> tests presence.
\<close>

definition WeatherCache_get ::
  "'v WeatherCache \<Rightarrow> int \<Rightarrow> string \<Rightarrow> 'v option \<times> 'v WeatherCache" where
  "WeatherCache_get c now key =
     (case cache c key of
        None \<Rightarrow> (None, c)
      | Some entry \<Rightarrow>
          if now - timestamp entry < cacheDuration c then (Some (data entry), c)
          else (None, c\<lparr>cache := (cache c)(key := None)\<rparr>))"

text \<open>\<^verbatim>\<open>set<T>(key, data)\<close>, with the value of \<^verbatim>\<open>Date.now()\<close> passed as \<open>now\<close>.\<close>

definition WeatherCache_set ::
  "'v WeatherCache \<Rightarrow> int \<Rightarrow> string \<Rightarrow> 'v \<Rightarrow> 'v WeatherCache" where
  "WeatherCache_set c now key d =
     c\<lparr>cache := (cache c)(key \<mapsto> \<lparr>data = d, timestamp = now\<rparr>)\<rparr>"

section \<open>JavaScript values\<close>

text \<open>
  The payloads of the provider are parsed JSON and are typed \<^verbatim>\<open>any\<close>; the interfaces
  \<^verbatim>\<open>WeatherResponse\<close>, \<^verbatim>\<open>ForecastResponse\<close> and \<^verbatim>\<open>Location\<close> are erased at run time. Values
  are therefore modelled untyped. An object is the list of its properties in the order
  they were written, read by \<^const>\<open>map_of\<close>. Numbers are only copied, never computed
  with.
\<close>

datatype json =
    JUndefined
  | JNull
  | JBool bool
  | JNum real
  | JStr string
  | JArr "json list"
  | JObj "(string \<times> json) list"

text \<open>Truthiness, as tested by \<^verbatim>\<open>if (v)\<close> and \<^verbatim>\<open>v || w\<close>.\<close>

fun truthy :: "json \<Rightarrow> bool" where
  "truthy JUndefined = False"
| "truthy JNull = False"
| "truthy (JBool b) = b"
| "truthy (JNum x) = (x \<noteq> 0)"
| "truthy (JStr s) = (s \<noteq> [])"
| "truthy (JArr xs) = True"
| "truthy (JObj kvs) = True"

text \<open>
  The property read \<^verbatim>\<open>v.name\<close>, for the property names this program reads (none of
  them is a member of a prototype). Reading a property of \<^verbatim>\<open>undefined\<close> or \<^verbatim>\<open>null\<close>
  throws a TypeError: the result \<open>None\<close>. A missing property, and any property of a
  boolean, number, string or array, is \<^verbatim>\<open>undefined\<close>.
\<close>

definition getProp :: "json \<Rightarrow> string \<Rightarrow> json option" where
  "getProp v name =
     (case v of
        JUndefined \<Rightarrow> None
      | JNull \<Rightarrow> None
      | JObj kvs \<Rightarrow> Some (case map_of kvs name of None \<Rightarrow> JUndefined | Some x \<Rightarrow> x)
      | _ \<Rightarrow> Some JUndefined)"

text \<open>The values whose properties cannot be read.\<close>

definition nullish :: "json \<Rightarrow> bool" where
  "nullish v = (v = JUndefined \<or> v = JNull)"

text \<open>A chain of property reads \<^verbatim>\<open>v.a.b\<close>.\<close>

fun path :: "json \<Rightarrow> string list \<Rightarrow> json option" where
  "path v [] = Some v"
| "path v (name # names) = Option.bind (getProp v name) (\<lambda>w. path w names)"

text \<open>
  The optional read \<^verbatim>\<open>v?.name\<close>: \<^verbatim>\<open>undefined\<close> when \<open>v\<close> is \<^verbatim>\<open>undefined\<close> or \<^verbatim>\<open>null\<close>, and
  never an error.
\<close>

definition optProp :: "json \<Rightarrow> string \<Rightarrow> json" where
  "optProp v name = (case getProp v name of None \<Rightarrow> JUndefined | Some x \<Rightarrow> x)"

text \<open>
  \<^verbatim>\<open>v.map(f)\<close>: a parsed JSON value has the method only when it is an array; the call
  throws a TypeError otherwise, and when \<open>f\<close> throws on an element.
\<close>

definition arrayMap :: "json \<Rightarrow> (json \<Rightarrow> json option) \<Rightarrow> json option" where
  "arrayMap v f =
     (case v of JArr xs \<Rightarrow> map_option JArr (those (map f xs)) | _ \<Rightarrow> None)"

text \<open>
  The property names of the object found at a path, in order (\<open>None\<close> when there is no
  object there), and the statement that the value found in \<open>d\<close> at the path \<open>pd\<close> is found
  unchanged in \<open>w\<close> at the path \<open>pw\<close>.
\<close>

definition keysAt :: "json \<Rightarrow> string list \<Rightarrow> string list option" where
  "keysAt v p = (case path v p of Some (JObj kvs) \<Rightarrow> Some (map fst kvs) | _ \<Rightarrow> None)"

definition copied :: "json \<Rightarrow> string list \<Rightarrow> json \<Rightarrow> string list \<Rightarrow> bool" where
  "copied d pd w pw = (case path d pd of None \<Rightarrow> False | Some x \<Rightarrow> path w pw = Some x)"

text \<open>The value a \<^verbatim>\<open>T | null\<close> result stands for.\<close>

definition orNull :: "json option \<Rightarrow> json" where
  "orNull r = (case r of None \<Rightarrow> JNull | Some v \<Rightarrow> v)"

text \<open>
  The text of an integer inside a template literal, \<^verbatim>\<open>`${days}`\<close>: decimal digits,
  with a minus sign for a negative number. (JavaScript writes an integer this way up to
  \<open>10\<^sup>2\<^sup>1\<close>.)
\<close>

definition digitChar :: "nat \<Rightarrow> char" where
  "digitChar d = ''0123456789'' ! d"

fun showNat :: "nat \<Rightarrow> string" where
  "showNat n = (if n < 10 then [digitChar n] else showNat (n div 10) @ [digitChar (n mod 10)])"

declare showNat.simps [simp del]

definition showInt :: "int \<Rightarrow> string" where
  "showInt i = (if i < 0 then CHR ''-'' # showNat (nat (- i)) else showNat (nat i))"

section \<open>The gateway (class WeatherAPI)\<close>

text \<open>
  A call \<^verbatim>\<open>axios.get(url, { params })\<close> and what it settles to: fulfilled with a response
  whose \<^verbatim>\<open>data\<close> is given, or rejected with an AxiosError whose \<^verbatim>\<open>response\<close> is absent
  (nothing was received) or has a \<^verbatim>\<open>status\<close> and a \<^verbatim>\<open>data\<close>.
\<close>

record request =
  url :: string
  params :: "(string \<times> json) list"

datatype reply =
    Resolved json
  | Rejected "(int \<times> json) option"

text \<open>What an operation throws: the AxiosError of the rejected call, or a TypeError.\<close>

datatype error =
    AxiosError "(int \<times> json) option"
  | TypeError

record WeatherAPI =
  baseUrl :: string
  apiKey :: string
  wcache :: "json WeatherCache"

definition WeatherAPI_new :: "string \<Rightarrow> int \<Rightarrow> WeatherAPI" where
  "WeatherAPI_new key cacheDurationMs =
     \<lparr>baseUrl = ''http://api.weatherapi.com/v1'', apiKey = key,
      wcache = WeatherCache_new cacheDurationMs\<rparr>"

text \<open>The default of the constructor's second parameter, \<^verbatim>\<open>15 * 60 * 1000\<close>.\<close>

definition defaultCacheDurationMs :: int where
  "defaultCacheDurationMs = 15 * 60 * 1000"

text \<open>
  An operation runs from its cache read to its cache write without another operation in
  between. Its outcome: the value the promise settles to, the gateway afterwards, and the
  calls made to the provider, in order.
\<close>

record outcome =
  result :: "error + json"
  api :: WeatherAPI
  calls :: "request list"

text \<open>The object literal \<^verbatim>\<open>weatherData\<close> of \<^verbatim>\<open>getCurrentWeather\<close>, from \<^verbatim>\<open>response.data\<close>.\<close>

definition weatherDataOf :: "json \<Rightarrow> json option" where
  "weatherDataOf d = do {
     name \<leftarrow> path d [''location'', ''name''];
     region \<leftarrow> path d [''location'', ''region''];
     country \<leftarrow> path d [''location'', ''country''];
     lat \<leftarrow> path d [''location'', ''lat''];
     lon \<leftarrow> path d [''location'', ''lon''];
     localTime \<leftarrow> path d [''location'', ''localtime''];
     tempC \<leftarrow> path d [''current'', ''temp_c''];
     tempF \<leftarrow> path d [''current'', ''temp_f''];
     condition \<leftarrow> path d [''current'', ''condition'', ''text''];
     windKph \<leftarrow> path d [''current'', ''wind_kph''];
     windDir \<leftarrow> path d [''current'', ''wind_dir''];
     humidity \<leftarrow> path d [''current'', ''humidity''];
     feelsLikeC \<leftarrow> path d [''current'', ''feelslike_c''];
     feelsLikeF \<leftarrow> path d [''current'', ''feelslike_f''];
     uv \<leftarrow> path d [''current'', ''uv''];
     airQuality \<leftarrow> path d [''current'', ''air_quality''];
     Some (JObj
       [(''location'', JObj
           [(''name'', name), (''region'', region), (''country'', country),
            (''lat'', lat), (''lon'', lon), (''localTime'', localTime)]),
        (''current'', JObj
           [(''tempC'', tempC), (''tempF'', tempF), (''condition'', condition),
            (''windKph'', windKph), (''windDir'', windDir), (''humidity'', humidity),
            (''feelsLikeC'', feelsLikeC), (''feelsLikeF'', feelsLikeF), (''uv'', uv),
            (''airQuality'', airQuality)])])
   }"

definition currentKey :: "string \<Rightarrow> string" where
  "currentKey location = ''current_'' @ location"

definition currentRequest :: "WeatherAPI \<Rightarrow> string \<Rightarrow> request" where
  "currentRequest a location =
     \<lparr>url = baseUrl a @ ''/current.json'',
      params = [(''key'', JStr (apiKey a)), (''q'', JStr location), (''aqi'', JStr ''yes'')]\<rparr>"

text \<open>
  \<^verbatim>\<open>getCurrentWeather(location)\<close>. \<open>upstream\<close> is how the provider answers a call made
  now; \<open>tGet\<close> and \<open>tSet\<close> are the values of \<^verbatim>\<open>Date.now()\<close> at the cache read and at the
  cache write.
\<close>

definition getCurrentWeather ::
  "WeatherAPI \<Rightarrow> (request \<Rightarrow> reply) \<Rightarrow> int \<Rightarrow> int \<Rightarrow> string \<Rightarrow> outcome" where
  "getCurrentWeather a upstream tGet tSet location =
     (let cacheKey = currentKey location;
          (r, c1) = WeatherCache_get (wcache a) tGet cacheKey;
          cachedData = orNull r
      in if truthy cachedData
         then \<lparr>result = Inr cachedData, api = a\<lparr>wcache := c1\<rparr>, calls = []\<rparr>
         else
           (case upstream (currentRequest a location) of
              Rejected e \<Rightarrow>
                \<lparr>result = Inl (AxiosError e), api = a\<lparr>wcache := c1\<rparr>,
                 calls = [currentRequest a location]\<rparr>
            | Resolved d \<Rightarrow>
                (case weatherDataOf d of
                   None \<Rightarrow>
                     \<lparr>result = Inl TypeError, api = a\<lparr>wcache := c1\<rparr>,
                      calls = [currentRequest a location]\<rparr>
                 | Some weatherData \<Rightarrow>
                     \<lparr>result = Inr weatherData,
                      api = a\<lparr>wcache := WeatherCache_set c1 tSet cacheKey weatherData\<rparr>,
                      calls = [currentRequest a location]\<rparr>)))"

text \<open>The callback of \<^verbatim>\<open>day.hour.map\<close>.\<close>

definition hourlyForecast :: "json \<Rightarrow> json option" where
  "hourlyForecast hour = do {
     time \<leftarrow> path hour [''time''];
     tempC \<leftarrow> path hour [''temp_c''];
     condition \<leftarrow> path hour [''condition'', ''text''];
     windKph \<leftarrow> path hour [''wind_kph''];
     windDir \<leftarrow> path hour [''wind_dir''];
     precipitation \<leftarrow> path hour [''precip_mm''];
     humidity \<leftarrow> path hour [''humidity''];
     Some (JObj
       [(''time'', time), (''tempC'', tempC), (''condition'', condition),
        (''windKph'', windKph), (''windDir'', windDir),
        (''precipitation'', precipitation), (''humidity'', humidity)])
   }"

text \<open>The callback of \<^verbatim>\<open>response.data.forecast.forecastday.map\<close>.\<close>

definition dailyForecast :: "json \<Rightarrow> json option" where
  "dailyForecast day = do {
     date \<leftarrow> path day [''date''];
     maxTempC \<leftarrow> path day [''day'', ''maxtemp_c''];
     minTempC \<leftarrow> path day [''day'', ''mintemp_c''];
     avgTempC \<leftarrow> path day [''day'', ''avgtemp_c''];
     maxWindKph \<leftarrow> path day [''day'', ''maxwind_kph''];
     totalPrecipMm \<leftarrow> path day [''day'', ''totalprecip_mm''];
     avgHumidity \<leftarrow> path day [''day'', ''avghumidity''];
     condition \<leftarrow> path day [''day'', ''condition'', ''text''];
     sunrise \<leftarrow> path day [''astro'', ''sunrise''];
     sunset \<leftarrow> path day [''astro'', ''sunset''];
     hours \<leftarrow> path day [''hour''];
     hourly \<leftarrow> arrayMap hours hourlyForecast;
     Some (JObj
       [(''date'', date), (''maxTempC'', maxTempC), (''minTempC'', minTempC),
        (''avgTempC'', avgTempC), (''maxWindKph'', maxWindKph),
        (''totalPrecipMm'', totalPrecipMm), (''avgHumidity'', avgHumidity),
        (''condition'', condition), (''sunrise'', sunrise), (''sunset'', sunset),
        (''hourly'', hourly)])
   }"

text \<open>The object literal \<^verbatim>\<open>forecastData\<close> of \<^verbatim>\<open>getForecast\<close>.\<close>

definition forecastDataOf :: "json \<Rightarrow> json option" where
  "forecastDataOf d = do {
     name \<leftarrow> path d [''location'', ''name''];
     region \<leftarrow> path d [''location'', ''region''];
     country \<leftarrow> path d [''location'', ''country''];
     lat \<leftarrow> path d [''location'', ''lat''];
     lon \<leftarrow> path d [''location'', ''lon''];
     forecastday \<leftarrow> path d [''forecast'', ''forecastday''];
     forecast \<leftarrow> arrayMap forecastday dailyForecast;
     Some (JObj
       [(''location'', JObj
           [(''name'', name), (''region'', region), (''country'', country),
            (''lat'', lat), (''lon'', lon)]),
        (''forecast'', forecast)])
   }"

definition forecastKey :: "string \<Rightarrow> int \<Rightarrow> string" where
  "forecastKey location days = ''forecast_'' @ location @ ''_'' @ showInt days"

definition forecastRequest :: "WeatherAPI \<Rightarrow> string \<Rightarrow> int \<Rightarrow> request" where
  "forecastRequest a location days =
     \<lparr>url = baseUrl a @ ''/forecast.json'',
      params = [(''key'', JStr (apiKey a)), (''q'', JStr location),
                (''days'', JNum (of_int days)), (''aqi'', JStr ''yes'')]\<rparr>"

text \<open>
  \<^verbatim>\<open>getForecast(location, days)\<close>, for a day count that is an integer below \<open>2\<^sup>5\<^sup>3\<close> in
  magnitude. Its only caller, the forecast route, passes such a count, or a larger double,
  which is not followed here.
\<close>

definition getForecast ::
  "WeatherAPI \<Rightarrow> (request \<Rightarrow> reply) \<Rightarrow> int \<Rightarrow> int \<Rightarrow> string \<Rightarrow> int \<Rightarrow> outcome" where
  "getForecast a upstream tGet tSet location days =
     (let cacheKey = forecastKey location days;
          (r, c1) = WeatherCache_get (wcache a) tGet cacheKey;
          cachedData = orNull r
      in if truthy cachedData
         then \<lparr>result = Inr cachedData, api = a\<lparr>wcache := c1\<rparr>, calls = []\<rparr>
         else
           (case upstream (forecastRequest a location days) of
              Rejected e \<Rightarrow>
                \<lparr>result = Inl (AxiosError e), api = a\<lparr>wcache := c1\<rparr>,
                 calls = [forecastRequest a location days]\<rparr>
            | Resolved d \<Rightarrow>
                (case forecastDataOf d of
                   None \<Rightarrow>
                     \<lparr>result = Inl TypeError, api = a\<lparr>wcache := c1\<rparr>,
                      calls = [forecastRequest a location days]\<rparr>
                 | Some forecastData \<Rightarrow>
                     \<lparr>result = Inr forecastData,
                      api = a\<lparr>wcache := WeatherCache_set c1 tSet cacheKey forecastData\<rparr>,
                      calls = [forecastRequest a location days]\<rparr>)))"

text \<open>The callback of \<^verbatim>\<open>response.data.map\<close> in \<^verbatim>\<open>searchLocations\<close>.\<close>

definition searchLocation :: "json \<Rightarrow> json option" where
  "searchLocation location = do {
     name \<leftarrow> path location [''name''];
     region \<leftarrow> path location [''region''];
     country \<leftarrow> path location [''country''];
     lat \<leftarrow> path location [''lat''];
     lon \<leftarrow> path location [''lon''];
     Some (JObj
       [(''name'', name), (''region'', region), (''country'', country),
        (''lat'', lat), (''lon'', lon)])
   }"

definition searchRequest :: "WeatherAPI \<Rightarrow> string \<Rightarrow> request" where
  "searchRequest a query =
     \<lparr>url = baseUrl a @ ''/search.json'',
      params = [(''key'', JStr (apiKey a)), (''q'', JStr query)]\<rparr>"

definition searchLocations :: "WeatherAPI \<Rightarrow> (request \<Rightarrow> reply) \<Rightarrow> string \<Rightarrow> outcome" where
  "searchLocations a upstream query =
     (case upstream (searchRequest a query) of
        Rejected e \<Rightarrow>
          \<lparr>result = Inl (AxiosError e), api = a, calls = [searchRequest a query]\<rparr>
      | Resolved d \<Rightarrow>
          \<lparr>result = (case arrayMap d searchLocation of None \<Rightarrow> Inl TypeError | Some ls \<Rightarrow> Inr ls),
           api = a, calls = [searchRequest a query]\<rparr>)"

text \<open>
  The gateways a running server can hold. Between two awaits an operation does one of
  three things to the gateway: it reads the cache, it writes a current-weather snapshot
  under a current-weather key, or it writes a forecast under a forecast key; the steps of
  different requests may interleave.
\<close>

inductive reachable :: "WeatherAPI \<Rightarrow> bool" where
  created: "reachable (WeatherAPI_new key cacheDurationMs)"
| read: "reachable a \<Longrightarrow>
     reachable (a\<lparr>wcache := snd (WeatherCache_get (wcache a) now K)\<rparr>)"
| storeCurrent: "reachable a \<Longrightarrow> weatherDataOf d = Some weatherData \<Longrightarrow>
     reachable (a\<lparr>wcache := WeatherCache_set (wcache a) now (currentKey location) weatherData\<rparr>)"
| storeForecast: "reachable a \<Longrightarrow> forecastDataOf d = Some forecastData \<Longrightarrow>
     reachable (a\<lparr>wcache :=
       WeatherCache_set (wcache a) now (forecastKey location days) forecastData\<rparr>)"

section \<open>The HTTP layer\<close>

text \<open>
  \<^verbatim>\<open>errorHandler\<close>: the status and the JSON body of the response. \<^verbatim>\<open>|| 500\<close> replaces a
  missing or zero status and \<^verbatim>\<open>|| '...'\<close> a missing or falsy message.
\<close>

definition errorHandler :: "error \<Rightarrow> int \<times> json" where
  "errorHandler err =
     (case err of
        AxiosError response \<Rightarrow>
          (let status = (case response of None \<Rightarrow> 0 | Some (s, d) \<Rightarrow> s);
               body = (case response of None \<Rightarrow> JUndefined | Some (s, d) \<Rightarrow> d);
               message = optProp (optProp body ''error'') ''message''
           in (if status \<noteq> 0 then status else 500,
               JObj [(''error'',
                  if truthy message then message
                  else JStr ''An error occurred with the weather service'')]))
      | TypeError \<Rightarrow> (500, JObj [(''error'', JStr ''Internal server error'')]))"

text \<open>
  What \<^verbatim>\<open>res.json(value)\<close> sends: the value as \<^verbatim>\<open>JSON.stringify\<close> writes it. A property that
  holds \<^verbatim>\<open>undefined\<close> is left out of its object, and \<^verbatim>\<open>undefined\<close> inside an array is
  written \<^verbatim>\<open>null\<close>. (The operations return objects and arrays.)
\<close>

fun serialise :: "json \<Rightarrow> json"
  and serialiseProperties :: "(string \<times> json) list \<Rightarrow> (string \<times> json) list"
  and serialiseElements :: "json list \<Rightarrow> json list" where
  "serialise (JObj kvs) = JObj (serialiseProperties kvs)"
| "serialise (JArr xs) = JArr (serialiseElements xs)"
| "serialise JUndefined = JUndefined"
| "serialise JNull = JNull"
| "serialise (JBool b) = JBool b"
| "serialise (JNum x) = JNum x"
| "serialise (JStr s) = JStr s"
| "serialiseProperties [] = []"
| "serialiseProperties (kv # kvs) =
     (if snd kv = JUndefined then serialiseProperties kvs
      else (fst kv, serialise (snd kv)) # serialiseProperties kvs)"
| "serialiseElements [] = []"
| "serialiseElements (x # xs) =
     (if x = JUndefined then JNull else serialise x) # serialiseElements xs"

text \<open>
  A route handler: \<^verbatim>\<open>res.json(value)\<close> with status 200, or \<^verbatim>\<open>next(error)\<close>, which runs
  \<^verbatim>\<open>errorHandler\<close>.
\<close>

definition respond :: "outcome \<Rightarrow> int \<times> json" where
  "respond out =
     (case result out of Inr v \<Rightarrow> (200, serialise v) | Inl err \<Rightarrow> errorHandler err)"

text \<open>
  The \<open>days\<close> parameter is parsed, so its text is given exactly: a JavaScript string as the
  list of its UTF-16 code units. \<open>codes\<close> gives the code units of an ASCII text.
\<close>

definition codes :: "string \<Rightarrow> nat list" where
  "codes s = map of_char s"

text \<open>
  A value of \<^verbatim>\<open>req.query\<close>: a string, an array (a repeated parameter) or an object (a
  bracketed parameter); \<open>None\<close> is \<^verbatim>\<open>undefined\<close>, the parameter missing. \<^verbatim>\<open>parseInt\<close> first
  converts its argument to a string.
\<close>

datatype query =
    QString "nat list"
  | QArray "query list"
  | QObject

fun joinComma :: "nat list list \<Rightarrow> nat list" where
  "joinComma [] = []"
| "joinComma [x] = x"
| "joinComma (x # y # ys) = x @ codes '','' @ joinComma (y # ys)"

fun queryToString :: "query \<Rightarrow> nat list" where
  "queryToString (QString s) = s"
| "queryToString (QArray xs) = joinComma (map queryToString xs)"
| "queryToString QObject = codes ''[object Object]''"

definition argToString :: "query option \<Rightarrow> nat list" where
  "argToString q = (case q of None \<Rightarrow> codes ''undefined'' | Some v \<Rightarrow> queryToString v)"

text \<open>
  The numbers \<^verbatim>\<open>parseInt\<close> can return: \<^verbatim>\<open>NaN\<close>; the double that is the integer \<open>n\<close>, for
  \<open>\<bar>n\<bar> < 2\<^sup>5\<^sup>3\<close>, where every integer is a double and is written in decimal by a
  template literal; and \<open>Large\<close>, a double of magnitude \<open>2\<^sup>5\<^sup>3\<close> or more, possibly infinite,
  which results from rounding and is not determined further here.
\<close>

datatype number =
    NaN
  | Exact int
  | Large

definition safeLimit :: int where
  "safeLimit = 9007199254740992"

text \<open>
  The built-in \<^verbatim>\<open>parseInt(string)\<close> with no radix: leading white space and line
  terminators are skipped (TAB, LF, VT, FF, CR, SP, NBSP, the Unicode space separators,
  LS, PS and the byte order mark), a sign is read, a prefix \<^verbatim>\<open>0x\<close> or \<^verbatim>\<open>0X\<close> selects radix
  16, and the longest run of digits is the value; no digit gives \<^verbatim>\<open>NaN\<close>.
\<close>

definition isWhiteSpace :: "nat \<Rightarrow> bool" where
  "isWhiteSpace u =
     (u \<in> set [0x09, 0x0A, 0x0B, 0x0C, 0x0D, 0x20, 0xA0, 0x1680, 0x2028, 0x2029, 0x202F,
                0x205F, 0x3000, 0xFEFF]
      \<or> (0x2000 \<le> u \<and> u \<le> 0x200A))"

definition digitValue :: "nat \<Rightarrow> nat option" where
  "digitValue u =
     (if 48 \<le> u \<and> u \<le> 57 then Some (u - 48)
      else if 97 \<le> u \<and> u \<le> 122 then Some (u - 87)
      else if 65 \<le> u \<and> u \<le> 90 then Some (u - 55)
      else None)"

definition isRadixDigit :: "nat \<Rightarrow> nat \<Rightarrow> bool" where
  "isRadixDigit R u = (case digitValue u of None \<Rightarrow> False | Some v \<Rightarrow> v < R)"

definition radixValue :: "nat \<Rightarrow> nat list \<Rightarrow> nat" where
  "radixValue R Z =
     foldl (\<lambda>acc u. acc * R + (case digitValue u of None \<Rightarrow> 0 | Some v \<Rightarrow> v)) 0 Z"

definition parseInt :: "nat list \<Rightarrow> number" where
  "parseInt inputString =
     (let S = dropWhile isWhiteSpace inputString;
          sign = (if S \<noteq> [] \<and> hd S = of_char CHR ''-'' then - 1 else 1 :: int);
          S1 = (if S \<noteq> [] \<and> (hd S = of_char CHR ''+'' \<or> hd S = of_char CHR ''-'')
                then tl S else S);
          hex = (take 2 S1 = codes ''0x'' \<or> take 2 S1 = codes ''0X'');
          R = (if hex then 16 else 10);
          S2 = (if hex then drop 2 S1 else S1);
          Z = takeWhile (isRadixDigit R) S2
      in if Z = [] then NaN
         else if \<bar>sign * int (radixValue R Z)\<bar> < safeLimit
           then Exact (sign * int (radixValue R Z))
         else Large)"

text \<open>
  \<^verbatim>\<open>parseInt(req.query.days as string) || 3\<close>: \<^verbatim>\<open>NaN\<close> and \<open>0\<close> are falsy; every other
  number is the day count.
\<close>

definition forecastDays :: "query option \<Rightarrow> number" where
  "forecastDays q =
     (case parseInt (argToString q) of
        NaN \<Rightarrow> Exact 3
      | Exact n \<Rightarrow> if n \<noteq> 0 then Exact n else Exact 3
      | Large \<Rightarrow> Large)"

text \<open>
  The three routes: the response, the gateway afterwards and the calls made. The forecast
  route is followed for a day count that is an integer below \<open>2\<^sup>5\<^sup>3\<close> in magnitude, which
  \<open>getForecast\<close> above takes; its result is \<open>None\<close> for a \<open>Large\<close> day count, where the call
  it makes is not determined here.
\<close>

definition route_current ::
  "WeatherAPI \<Rightarrow> (request \<Rightarrow> reply) \<Rightarrow> int \<Rightarrow> int \<Rightarrow> string
     \<Rightarrow> (int \<times> json) \<times> WeatherAPI \<times> request list" where
  "route_current a upstream tGet tSet location =
     (let out = getCurrentWeather a upstream tGet tSet location
      in (respond out, api out, calls out))"

definition route_forecast ::
  "WeatherAPI \<Rightarrow> (request \<Rightarrow> reply) \<Rightarrow> int \<Rightarrow> int \<Rightarrow> string \<Rightarrow> query option
     \<Rightarrow> ((int \<times> json) \<times> WeatherAPI \<times> request list) option" where
  "route_forecast a upstream tGet tSet location q =
     (case forecastDays q of
        Exact days \<Rightarrow>
          (let out = getForecast a upstream tGet tSet location days
           in Some (respond out, api out, calls out))
      | _ \<Rightarrow> None)"

definition route_search ::
  "WeatherAPI \<Rightarrow> (request \<Rightarrow> reply) \<Rightarrow> string
     \<Rightarrow> (int \<times> json) \<times> WeatherAPI \<times> request list" where
  "route_search a upstream query =
     (let out = searchLocations a upstream query
      in (respond out, api out, calls out))"

section \<open>Example payloads\<close>

text \<open>A current-conditions payload and a forecast payload in the provider's format.\<close>

definition sampleLocation :: json where
  "sampleLocation =
     JObj [(''name'', JStr ''Berlin''), (''region'', JStr ''Berlin''),
           (''country'', JStr ''Germany''), (''lat'', JNum 52.52), (''lon'', JNum 13.4),
           (''tz_id'', JStr ''Europe/Berlin''), (''localtime'', JStr ''2024-05-01 12:00'')]"

definition sampleAirQuality :: json where
  "sampleAirQuality =
     JObj [(''co'', JNum 230.3), (''no2'', JNum 13.5), (''o3'', JNum 62.2),
           (''so2'', JNum 2.4), (''pm2_5'', JNum 8.1), (''pm10'', JNum 11.7),
           (''us-epa-index'', JNum 1), (''gb-defra-index'', JNum 1)]"

definition sampleCurrent :: json where
  "sampleCurrent =
     JObj [(''location'', sampleLocation),
           (''current'', JObj
              [(''temp_c'', JNum 18.5), (''temp_f'', JNum 65.3),
               (''condition'', JObj [(''text'', JStr ''Sunny''), (''code'', JNum 1000)]),
               (''wind_kph'', JNum 10.1), (''wind_dir'', JStr ''NW''),
               (''humidity'', JNum 60), (''feelslike_c'', JNum 18),
               (''feelslike_f'', JNum 64.4), (''uv'', JNum 5),
               (''air_quality'', sampleAirQuality)])]"

definition sampleHour :: json where
  "sampleHour =
     JObj [(''time'', JStr ''2024-05-01 00:00''), (''temp_c'', JNum 11.2),
           (''condition'', JObj [(''text'', JStr ''Clear'')]), (''wind_kph'', JNum 6.1),
           (''wind_dir'', JStr ''N''), (''precip_mm'', JNum 0), (''humidity'', JNum 71)]"

definition sampleDay :: json where
  "sampleDay =
     JObj [(''date'', JStr ''2024-05-01''),
           (''day'', JObj
              [(''maxtemp_c'', JNum 20.1), (''mintemp_c'', JNum 9.8),
               (''avgtemp_c'', JNum 15), (''maxwind_kph'', JNum 14.4),
               (''totalprecip_mm'', JNum 0.2), (''avghumidity'', JNum 64),
               (''condition'', JObj [(''text'', JStr ''Sunny'')])]),
           (''astro'', JObj [(''sunrise'', JStr ''05:38 AM''), (''sunset'', JStr ''08:29 PM'')]),
           (''hour'', JArr [sampleHour])]"

definition sampleForecast :: json where
  "sampleForecast =
     JObj [(''location'', sampleLocation),
           (''forecast'', JObj [(''forecastday'', JArr [sampleDay])])]"

text \<open>A provider that answers every call with the forecast payload.\<close>

definition forecastProvider :: "request \<Rightarrow> reply" where
  "forecastProvider r = Resolved sampleForecast"

text \<open>What the gateway makes of the two payloads.\<close>

definition sampleWeatherResponse :: json where
  "sampleWeatherResponse =
     JObj [(''location'', JObj
              [(''name'', JStr ''Berlin''), (''region'', JStr ''Berlin''),
               (''country'', JStr ''Germany''), (''lat'', JNum 52.52), (''lon'', JNum 13.4),
               (''localTime'', JStr ''2024-05-01 12:00'')]),
           (''current'', JObj
              [(''tempC'', JNum 18.5), (''tempF'', JNum 65.3), (''condition'', JStr ''Sunny''),
               (''windKph'', JNum 10.1), (''windDir'', JStr ''NW''), (''humidity'', JNum 60),
               (''feelsLikeC'', JNum 18), (''feelsLikeF'', JNum 64.4), (''uv'', JNum 5),
               (''airQuality'', sampleAirQuality)])]"

definition sampleForecastResponse :: json where
  "sampleForecastResponse =
     JObj [(''location'', JObj
              [(''name'', JStr ''Berlin''), (''region'', JStr ''Berlin''),
               (''country'', JStr ''Germany''), (''lat'', JNum 52.52), (''lon'', JNum 13.4)]),
           (''forecast'', JArr [JObj
              [(''date'', JStr ''2024-05-01''), (''maxTempC'', JNum 20.1),
               (''minTempC'', JNum 9.8), (''avgTempC'', JNum 15), (''maxWindKph'', JNum 14.4),
               (''totalPrecipMm'', JNum 0.2), (''avgHumidity'', JNum 64),
               (''condition'', JStr ''Sunny''), (''sunrise'', JStr ''05:38 AM''),
               (''sunset'', JStr ''08:29 PM''),
               (''hourly'', JArr [JObj
                  [(''time'', JStr ''2024-05-01 00:00''), (''tempC'', JNum 11.2),
                   (''condition'', JStr ''Clear''), (''windKph'', JNum 6.1),
                   (''windDir'', JStr ''N''), (''precipitation'', JNum 0),
                   (''humidity'', JNum 71)]])]])]"

section \<open>Properties of the cache\<close>

lemma cacheDuration_set [simp]:
  "cacheDuration (WeatherCache_set c now key d) = cacheDuration c"
  by (simp add: WeatherCache_set_def)

lemma cache_set_same [simp]:
  "cache (WeatherCache_set c now key d) key = Some \<lparr>data = d, timestamp = now\<rparr>"
  by (simp add: WeatherCache_set_def)

lemma cache_set_other [simp]:
  "key' \<noteq> key \<Longrightarrow> cache (WeatherCache_set c now key d) key' = cache c key'"
  by (simp add: WeatherCache_set_def)

lemma get_absent:
  "cache c key = None \<Longrightarrow> WeatherCache_get c now key = (None, c)"
  by (simp add: WeatherCache_get_def)

lemma get_fresh:
  "cache c key = Some e \<Longrightarrow> now - timestamp e < cacheDuration c \<Longrightarrow>
   WeatherCache_get c now key = (Some (data e), c)"
  by (simp add: WeatherCache_get_def)

lemma get_expired:
  "cache c key = Some e \<Longrightarrow> cacheDuration c \<le> now - timestamp e \<Longrightarrow>
   WeatherCache_get c now key = (None, c\<lparr>cache := (cache c)(key := None)\<rparr>)"
  by (simp add: WeatherCache_get_def)

lemma get_keeps_duration [simp]:
  "cacheDuration (snd (WeatherCache_get c now key)) = cacheDuration c"
  by (simp add: WeatherCache_get_def split: option.splits)

lemma get_other_key [simp]:
  "key' \<noteq> key \<Longrightarrow> cache (snd (WeatherCache_get c now key)) key' = cache c key'"
  by (simp add: WeatherCache_get_def split: option.splits)

section \<open>Cache keys\<close>

lemma digitChar_cases:
  "d < 10 \<Longrightarrow> digitChar d \<in> set ''0123456789''"
  unfolding digitChar_def by (rule nth_mem) simp

lemma digitValue_digitChar: "d < 10 \<Longrightarrow> digitValue (of_char (digitChar d)) = Some d"
proof -
  assume "d < 10"
  then consider "d = 0" | "d = 1" | "d = 2" | "d = 3" | "d = 4" | "d = 5" | "d = 6"
    | "d = 7" | "d = 8" | "d = 9"
    by atomize_elim arith
  then show ?thesis
    by cases (simp_all add: digitChar_def digitValue_def)
qed

lemma set_showNat: "set (showNat n) \<subseteq> set ''0123456789''"
proof (induction n rule: showNat.induct)
  case (1 n)
  show ?case
  proof (cases "n < 10")
    case True
    then show ?thesis
      using digitChar_cases [of n] by (subst showNat.simps) simp
  next
    case False
    have "n mod 10 < 10" by simp
    from digitChar_cases [OF this] 1 [OF False] False show ?thesis
      by (subst showNat.simps) simp
  qed
qed

lemma showNat_not_Nil: "showNat n \<noteq> []"
  by (subst showNat.simps) simp

lemma radixValue_snoc:
  "radixValue R (Z @ [ch]) = radixValue R Z * R + (case digitValue ch of None \<Rightarrow> 0 | Some v \<Rightarrow> v)"
  by (simp add: radixValue_def)

lemma radixValue_showNat: "radixValue 10 (codes (showNat n)) = n"
proof (induction n rule: showNat.induct)
  case (1 n)
  show ?case
  proof (cases "n < 10")
    case True
    then show ?thesis
      using digitValue_digitChar [of n]
      by (subst showNat.simps) (simp add: radixValue_def codes_def)
  next
    case False
    have "digitValue (of_char (digitChar (n mod 10))) = Some (n mod 10)"
      by (rule digitValue_digitChar) simp
    with 1 [OF False] False show ?thesis
      by (subst showNat.simps) (simp add: radixValue_snoc codes_def)
  qed
qed

lemma showNat_inject: "showNat m = showNat n \<Longrightarrow> m = n"
  by (metis radixValue_showNat)

lemma underscore_notin_showNat: "CHR ''_'' \<notin> set (showNat n)"
  using set_showNat [of n] by auto

lemma minus_notin_showNat: "CHR ''-'' \<notin> set (showNat n)"
  using set_showNat [of n] by auto

lemma underscore_notin_showInt: "CHR ''_'' \<notin> set (showInt i)"
  by (simp add: showInt_def underscore_notin_showNat)

lemma showInt_inject: "showInt i = showInt j \<Longrightarrow> i = j"
proof -
  assume eq: "showInt i = showInt j"
  have hd_nat: "hd (showNat n) \<noteq> CHR ''-''" for n
    using minus_notin_showNat [of n] showNat_not_Nil [of n] by (cases "showNat n") auto
  show ?thesis
  proof (cases "i < 0")
    case True
    then have "hd (showInt i) = CHR ''-''" by (simp add: showInt_def)
    with eq hd_nat [of "nat j"] have "j < 0" by (auto simp: showInt_def split: if_splits)
    with True eq have "showNat (nat (- i)) = showNat (nat (- j))" by (simp add: showInt_def)
    then have "nat (- i) = nat (- j)" by (rule showNat_inject)
    with True \<open>j < 0\<close> show ?thesis by simp
  next
    case False
    then have "hd (showInt i) \<noteq> CHR ''-''" using hd_nat [of "nat i"] by (simp add: showInt_def)
    with eq have "\<not> j < 0" by (auto simp: showInt_def split: if_splits)
    with False eq have "showNat (nat i) = showNat (nat j)" by (simp add: showInt_def)
    then have "nat i = nat j" by (rule showNat_inject)
    with False \<open>\<not> j < 0\<close> show ?thesis by simp
  qed
qed

lemma takeWhile_upto:
  "c \<notin> set s \<Longrightarrow> takeWhile (\<lambda>x. x \<noteq> c) (s @ c # r) = s"
  by (induction s) auto

lemma split_at_last:
  assumes "xs @ c # s = ys @ c # t" "c \<notin> set s" "c \<notin> set t"
  shows "xs = ys \<and> s = t"
proof -
  have "rev s @ c # rev xs = rev t @ c # rev ys"
    using arg_cong [OF assms(1), of rev] by simp
  then have "takeWhile (\<lambda>x. x \<noteq> c) (rev s @ c # rev xs)
      = takeWhile (\<lambda>x. x \<noteq> c) (rev t @ c # rev ys)"
    by simp
  then have "rev s = rev t"
    using assms(2,3) by (simp add: takeWhile_upto)
  then have "s = t" by simp
  with assms(1) show ?thesis by simp
qed

lemma forecastKey_inject:
  "forecastKey l1 d1 = forecastKey l2 d2 \<longleftrightarrow> l1 = l2 \<and> d1 = d2"
proof
  assume "forecastKey l1 d1 = forecastKey l2 d2"
  then have "l1 @ CHR ''_'' # showInt d1 = l2 @ CHR ''_'' # showInt d2"
    by (simp add: forecastKey_def)
  from split_at_last [OF this underscore_notin_showInt underscore_notin_showInt]
  show "l1 = l2 \<and> d1 = d2" by (auto dest: showInt_inject)
qed simp

lemma currentKey_inject: "currentKey l1 = currentKey l2 \<longleftrightarrow> l1 = l2"
  by (simp add: currentKey_def)

lemma current_not_forecast: "currentKey l \<noteq> forecastKey l' d"
  by (simp add: forecastKey_def currentKey_def)

section \<open>The claims about the cache\<close>

text \<open>
  Claim C1. Let \<open>D\<close> be the duration fixed at construction. After \<open>set(K, V)\<close> at time
  \<open>T\<close>, \<open>get(K)\<close> at a time \<open>t\<close> with \<open>T \<le> t < T + D\<close> returns \<open>V\<close> and leaves the cache
  as it is; at a time \<open>t \<ge> T + D\<close> it returns null. On any cache, \<open>get(K)\<close> has exactly
  three outcomes: null and the cache unchanged when \<open>K\<close> is absent; the stored value and
  the cache unchanged when the entry is younger than \<open>D\<close>; null and the entry of \<open>K\<close>
  (and no other) removed when its age is \<open>D\<close> or more. The duration never changes.
\<close>

theorem C1_cache_freshness:
  fixes c cs :: "'v WeatherCache"
  shows
    "(T \<le> t \<and> t < T + cacheDuration c \<longrightarrow>
        WeatherCache_get (WeatherCache_set c T K V) t K = (Some V, WeatherCache_set c T K V)) \<and>
     (T + cacheDuration c \<le> t \<longrightarrow>
        fst (WeatherCache_get (WeatherCache_set c T K V) t K) = None) \<and>
     (cache cs K = None \<longrightarrow> WeatherCache_get cs t K = (None, cs)) \<and>
     (\<forall>e. cache cs K = Some e \<and> t - timestamp e < cacheDuration cs \<longrightarrow>
          WeatherCache_get cs t K = (Some (data e), cs)) \<and>
     (\<forall>e. cache cs K = Some e \<and> cacheDuration cs \<le> t - timestamp e \<longrightarrow>
          WeatherCache_get cs t K = (None, cs\<lparr>cache := (cache cs)(K := None)\<rparr>) \<and>
          cache (snd (WeatherCache_get cs t K)) K = None \<and>
          (\<forall>K'. K' \<noteq> K \<longrightarrow> cache (snd (WeatherCache_get cs t K)) K' = cache cs K')) \<and>
     cacheDuration (snd (WeatherCache_get cs t K)) = cacheDuration cs"
proof -
  have fresh: "T \<le> t \<and> t < T + cacheDuration c \<longrightarrow>
      WeatherCache_get (WeatherCache_set c T K V) t K = (Some V, WeatherCache_set c T K V)"
    by (simp add: WeatherCache_get_def)
  have stale: "T + cacheDuration c \<le> t \<longrightarrow>
      fst (WeatherCache_get (WeatherCache_set c T K V) t K) = None"
    by (simp add: WeatherCache_get_def)
  have absent: "cache cs K = None \<longrightarrow> WeatherCache_get cs t K = (None, cs)"
    by (simp add: get_absent)
  have young: "\<forall>e. cache cs K = Some e \<and> t - timestamp e < cacheDuration cs \<longrightarrow>
      WeatherCache_get cs t K = (Some (data e), cs)"
    by (simp add: get_fresh)
  have old: "\<forall>e. cache cs K = Some e \<and> cacheDuration cs \<le> t - timestamp e \<longrightarrow>
      WeatherCache_get cs t K = (None, cs\<lparr>cache := (cache cs)(K := None)\<rparr>) \<and>
      cache (snd (WeatherCache_get cs t K)) K = None \<and>
      (\<forall>K'. K' \<noteq> K \<longrightarrow> cache (snd (WeatherCache_get cs t K)) K' = cache cs K')"
    by (simp add: get_expired)
  show ?thesis
    using fresh stale absent young old by simp
qed

theorem C1_cache_freshness_witness:
  "WeatherCache_get (WeatherCache_set (WeatherCache_new 100) 1000 ''k'' (7::nat)) 1099 ''k''
     = (Some 7, WeatherCache_set (WeatherCache_new 100) 1000 ''k'' 7) \<and>
   fst (WeatherCache_get (WeatherCache_set (WeatherCache_new 100) 1000 ''k'' (7::nat)) 1100 ''k'')
     = None \<and>
   WeatherCache_get (WeatherCache_new 100 :: nat WeatherCache) 1099 ''k''
     = (None, WeatherCache_new 100) \<and>
   cache (snd (WeatherCache_get
       (WeatherCache_set (WeatherCache_new 100) 1000 ''k'' (7::nat)) 1100 ''k'')) ''k'' = None"
  using C1_cache_freshness [where T = 1000 and t = 1099 and K = "''k''" and V = "7::nat"
      and c = "WeatherCache_new 100" and cs = "WeatherCache_new 100"]
    C1_cache_freshness [where T = 1000 and t = 1100 and K = "''k''" and V = "7::nat"
      and c = "WeatherCache_new 100"
      and cs = "WeatherCache_set (WeatherCache_new 100) 1000 ''k'' 7"]
  by (simp add: WeatherCache_new_def)

text \<open>
  Claim C2. \<open>set(K, V1)\<close> at \<open>T1\<close> followed by \<open>set(K, V2)\<close> at \<open>T2 > T1\<close> leaves the cache
  exactly as \<open>set(K, V2)\<close> at \<open>T2\<close> alone does: the first entry is replaced whatever its
  age. Then \<open>get(K)\<close> at a time in \<open>[T2, T2 + D)\<close> returns \<open>V2\<close>, and at \<open>T2 + D\<close> or later
  it returns null; \<open>T1\<close> plays no part.
\<close>

theorem C2_overwrite_resets_clock:
  fixes c :: "'v WeatherCache"
  shows
    "WeatherCache_set (WeatherCache_set c T1 K V1) T2 K V2 = WeatherCache_set c T2 K V2 \<and>
     (T1 < T2 \<and> T2 \<le> t \<and> t < T2 + cacheDuration c \<longrightarrow>
        WeatherCache_get (WeatherCache_set (WeatherCache_set c T1 K V1) T2 K V2) t K
          = (Some V2, WeatherCache_set c T2 K V2)) \<and>
     (T1 < T2 \<and> T2 + cacheDuration c \<le> t \<longrightarrow>
        fst (WeatherCache_get (WeatherCache_set (WeatherCache_set c T1 K V1) T2 K V2) t K)
          = None)"
proof -
  have twice: "WeatherCache_set (WeatherCache_set c T1 K V1) T2 K V2 = WeatherCache_set c T2 K V2"
    by (simp add: WeatherCache_set_def)
  have fresh: "T2 \<le> t \<and> t < T2 + cacheDuration c \<longrightarrow>
      WeatherCache_get (WeatherCache_set c T2 K V2) t K = (Some V2, WeatherCache_set c T2 K V2)"
    by (simp add: WeatherCache_get_def)
  have stale: "T2 + cacheDuration c \<le> t \<longrightarrow>
      fst (WeatherCache_get (WeatherCache_set c T2 K V2) t K) = None"
    by (simp add: WeatherCache_get_def)
  show ?thesis
    unfolding twice using fresh stale by simp
qed

theorem C2_overwrite_resets_clock_witness:
  "(10::int) < 50 \<and> (50::int) \<le> 120 \<and> (120::int) < 50 + 100 \<and>
   WeatherCache_get
     (WeatherCache_set (WeatherCache_set (WeatherCache_new 100) 10 ''k'' ''old'') 50 ''k'' ''new'')
     120 ''k''
   = (Some ''new'', WeatherCache_set (WeatherCache_new 100) 50 ''k'' ''new'') \<and>
   fst (WeatherCache_get
     (WeatherCache_set (WeatherCache_set (WeatherCache_new 100) 10 ''k'' ''old'') 50 ''k'' ''new'')
     150 ''k'') = None"
proof -
  let ?c = "WeatherCache_new 100 :: string WeatherCache"
  have fresh: "(10::int) < 50 \<and> (50::int) \<le> 120 \<and> 120 < 50 + cacheDuration ?c"
    by (simp add: WeatherCache_new_def)
  have stale: "(10::int) < 50 \<and> 50 + cacheDuration ?c \<le> 150"
    by (simp add: WeatherCache_new_def)
  from fresh C2_overwrite_resets_clock [where c = ?c and ?T1.0 = 10 and ?T2.0 = 50
      and K = "''k''" and ?V1.0 = "''old''" and ?V2.0 = "''new''" and t = 120]
  have 1: "WeatherCache_get
     (WeatherCache_set (WeatherCache_set ?c 10 ''k'' ''old'') 50 ''k'' ''new'') 120 ''k''
     = (Some ''new'', WeatherCache_set ?c 50 ''k'' ''new'')"
    by blast
  from stale C2_overwrite_resets_clock [where c = ?c and ?T1.0 = 10 and ?T2.0 = 50
      and K = "''k''" and ?V1.0 = "''old''" and ?V2.0 = "''new''" and t = 150]
  have 2: "fst (WeatherCache_get
     (WeatherCache_set (WeatherCache_set ?c 10 ''k'' ''old'') 50 ''k'' ''new'') 150 ''k'') = None"
    by blast
  from 1 2 show ?thesis by simp
qed

section \<open>What an operation reads and writes\<close>

lemma get_result_depends:
  "cache c K = cache c' K \<Longrightarrow> cacheDuration c = cacheDuration c' \<Longrightarrow>
   fst (WeatherCache_get c t K) = fst (WeatherCache_get c' t K)"
  by (simp add: WeatherCache_get_def split: option.splits)

lemma get_cache_subset:
  "cache (snd (WeatherCache_get c t K)) K' = Some e \<Longrightarrow> cache c K' = Some e"
  by (auto simp: WeatherCache_get_def split: option.splits if_splits)

lemma get_None_absent:
  "fst (WeatherCache_get c t K) = None \<Longrightarrow> cache (snd (WeatherCache_get c t K)) K = None"
  by (auto simp: WeatherCache_get_def split: option.splits if_splits)

lemma get_Some_unchanged:
  "fst (WeatherCache_get c t K) = Some v \<Longrightarrow>
   snd (WeatherCache_get c t K) = c \<and> (\<exists>e. cache c K = Some e \<and> data e = v \<and> t - timestamp e < cacheDuration c)"
  by (auto simp: WeatherCache_get_def split: option.splits if_splits)

lemma getCurrentWeather_fields [simp]:
  "baseUrl (api (getCurrentWeather a u t t' L)) = baseUrl a"
  "apiKey (api (getCurrentWeather a u t t' L)) = apiKey a"
  "cacheDuration (wcache (api (getCurrentWeather a u t t' L))) = cacheDuration (wcache a)"
  by (simp_all add: getCurrentWeather_def Let_def WeatherCache_get_def
      split: prod.splits option.splits reply.splits)

lemma getForecast_fields [simp]:
  "baseUrl (api (getForecast a u t t' L n)) = baseUrl a"
  "apiKey (api (getForecast a u t t' L n)) = apiKey a"
  "cacheDuration (wcache (api (getForecast a u t t' L n))) = cacheDuration (wcache a)"
  by (simp_all add: getForecast_def Let_def WeatherCache_get_def
      split: prod.splits option.splits reply.splits)

lemma getCurrentWeather_other_key:
  "K \<noteq> currentKey L \<Longrightarrow>
   cache (wcache (api (getCurrentWeather a u t t' L))) K = cache (wcache a) K"
  by (simp add: getCurrentWeather_def Let_def WeatherCache_get_def
      split: prod.splits option.splits reply.splits)

lemma getForecast_other_key:
  "K \<noteq> forecastKey L n \<Longrightarrow>
   cache (wcache (api (getForecast a u t t' L n))) K = cache (wcache a) K"
  by (simp add: getForecast_def Let_def WeatherCache_get_def
      split: prod.splits option.splits reply.splits)

lemma getCurrentWeather_result:
  "result (getCurrentWeather a u t t' L) =
     (if truthy (orNull (fst (WeatherCache_get (wcache a) t (currentKey L))))
      then Inr (orNull (fst (WeatherCache_get (wcache a) t (currentKey L))))
      else case u (currentRequest a L) of
             Rejected e \<Rightarrow> Inl (AxiosError e)
           | Resolved d \<Rightarrow> (case weatherDataOf d of None \<Rightarrow> Inl TypeError | Some w \<Rightarrow> Inr w))"
  by (simp add: getCurrentWeather_def Let_def split: prod.splits option.splits reply.splits)

lemma getCurrentWeather_calls:
  "calls (getCurrentWeather a u t t' L) =
     (if truthy (orNull (fst (WeatherCache_get (wcache a) t (currentKey L))))
      then [] else [currentRequest a L])"
  by (simp add: getCurrentWeather_def Let_def split: prod.splits option.splits reply.splits)

lemma getForecast_result:
  "result (getForecast a u t t' L n) =
     (if truthy (orNull (fst (WeatherCache_get (wcache a) t (forecastKey L n))))
      then Inr (orNull (fst (WeatherCache_get (wcache a) t (forecastKey L n))))
      else case u (forecastRequest a L n) of
             Rejected e \<Rightarrow> Inl (AxiosError e)
           | Resolved d \<Rightarrow> (case forecastDataOf d of None \<Rightarrow> Inl TypeError | Some w \<Rightarrow> Inr w))"
  by (simp add: getForecast_def Let_def split: prod.splits option.splits reply.splits)

lemma getForecast_calls:
  "calls (getForecast a u t t' L n) =
     (if truthy (orNull (fst (WeatherCache_get (wcache a) t (forecastKey L n))))
      then [] else [forecastRequest a L n])"
  by (simp add: getForecast_def Let_def split: prod.splits option.splits reply.splits)

lemma getCurrentWeather_stores:
  assumes "result (getCurrentWeather a u t t' L) = Inr w"
    and "calls (getCurrentWeather a u t t' L) \<noteq> []"
  shows "cache (wcache (api (getCurrentWeather a u t t' L))) (currentKey L)
           = Some \<lparr>data = w, timestamp = t'\<rparr>"
  using assms
  by (auto simp: getCurrentWeather_def Let_def split: prod.splits option.splits reply.splits if_splits)

lemma getForecast_stores:
  assumes "result (getForecast a u t t' L n) = Inr w"
    and "calls (getForecast a u t t' L n) \<noteq> []"
  shows "cache (wcache (api (getForecast a u t t' L n))) (forecastKey L n)
           = Some \<lparr>data = w, timestamp = t'\<rparr>"
  using assms
  by (auto simp: getForecast_def Let_def split: prod.splits option.splits reply.splits if_splits)

lemma getCurrentWeather_depends:
  assumes "baseUrl a = baseUrl b" "apiKey a = apiKey b"
    and "cacheDuration (wcache a) = cacheDuration (wcache b)"
    and "cache (wcache a) (currentKey L) = cache (wcache b) (currentKey L)"
  shows "result (getCurrentWeather a u t t' L) = result (getCurrentWeather b u t t' L) \<and>
         calls (getCurrentWeather a u t t' L) = calls (getCurrentWeather b u t t' L)"
proof -
  have "fst (WeatherCache_get (wcache a) t (currentKey L))
      = fst (WeatherCache_get (wcache b) t (currentKey L))"
    using assms(3,4) by (intro get_result_depends)
  moreover have "currentRequest a L = currentRequest b L"
    using assms(1,2) by (simp add: currentRequest_def)
  ultimately show ?thesis
    by (simp add: getCurrentWeather_result getCurrentWeather_calls)
qed

lemma getForecast_depends:
  assumes "baseUrl a = baseUrl b" "apiKey a = apiKey b"
    and "cacheDuration (wcache a) = cacheDuration (wcache b)"
    and "cache (wcache a) (forecastKey L n) = cache (wcache b) (forecastKey L n)"
  shows "result (getForecast a u t t' L n) = result (getForecast b u t t' L n) \<and>
         calls (getForecast a u t t' L n) = calls (getForecast b u t t' L n)"
proof -
  have "fst (WeatherCache_get (wcache a) t (forecastKey L n))
      = fst (WeatherCache_get (wcache b) t (forecastKey L n))"
    using assms(3,4) by (intro get_result_depends)
  moreover have "forecastRequest a L n = forecastRequest b L n"
    using assms(1,2) by (simp add: forecastRequest_def)
  ultimately show ?thesis
    by (simp add: getForecast_result getForecast_calls)
qed

section \<open>Evaluating the operations\<close>

lemma weatherDataOf_sample: "weatherDataOf sampleCurrent = Some sampleWeatherResponse"
  by (simp add: weatherDataOf_def sampleCurrent_def sampleLocation_def getProp_def
      sampleWeatherResponse_def)

lemma forecastDataOf_sample: "forecastDataOf sampleForecast = Some sampleForecastResponse"
  by (simp add: forecastDataOf_def dailyForecast_def hourlyForecast_def arrayMap_def
      sampleForecast_def sampleDay_def sampleHour_def sampleLocation_def getProp_def
      sampleForecastResponse_def)

lemma weatherDataOf_truthy: "weatherDataOf d = Some w \<Longrightarrow> truthy w"
  by (auto simp: weatherDataOf_def split: Option.bind_splits)

lemma forecastDataOf_truthy: "forecastDataOf d = Some w \<Longrightarrow> truthy w"
  by (auto simp: forecastDataOf_def split: Option.bind_splits)

lemma getCurrentWeather_hit:
  assumes "cache (wcache a) (currentKey L) = Some e"
    and "t - timestamp e < cacheDuration (wcache a)" and "truthy (data e)"
  shows "getCurrentWeather a u t t' L = \<lparr>result = Inr (data e), api = a, calls = []\<rparr>"
  using assms by (simp add: getCurrentWeather_def get_fresh orNull_def)

lemma getForecast_hit:
  assumes "cache (wcache a) (forecastKey L n) = Some e"
    and "t - timestamp e < cacheDuration (wcache a)" and "truthy (data e)"
  shows "getForecast a u t t' L n = \<lparr>result = Inr (data e), api = a, calls = []\<rparr>"
  using assms by (simp add: getForecast_def get_fresh orNull_def)

lemma getCurrentWeather_absent:
  assumes "cache (wcache a) (currentKey L) = None"
    and "u (currentRequest a L) = Resolved d" and "weatherDataOf d = Some w"
  shows "getCurrentWeather a u t t' L =
     \<lparr>result = Inr w, api = a\<lparr>wcache := WeatherCache_set (wcache a) t' (currentKey L) w\<rparr>,
      calls = [currentRequest a L]\<rparr>"
  using assms by (simp add: getCurrentWeather_def get_absent orNull_def)

lemma getForecast_absent:
  assumes "cache (wcache a) (forecastKey L n) = None"
    and "u (forecastRequest a L n) = Resolved d" and "forecastDataOf d = Some w"
  shows "getForecast a u t t' L n =
     \<lparr>result = Inr w, api = a\<lparr>wcache := WeatherCache_set (wcache a) t' (forecastKey L n) w\<rparr>,
      calls = [forecastRequest a L n]\<rparr>"
  using assms by (simp add: getForecast_def get_absent orNull_def)

lemma cache_new [simp]: "cache (wcache (WeatherAPI_new key D)) K = None"
  by (simp add: WeatherAPI_new_def WeatherCache_new_def)

lemma cacheDuration_new [simp]: "cacheDuration (wcache (WeatherAPI_new key D)) = D"
  by (simp add: WeatherAPI_new_def WeatherCache_new_def)

text \<open>
  Claim C3. The key of \<open>getCurrentWeather(L)\<close> is \<open>"current_" + L\<close> and the key of
  \<open>getForecast(L, days)\<close> is \<open>"forecast_" + L + "_" + days\<close>; neither normalises \<open>L\<close>. Two
  locations have the same key only when they are the same string, and two forecasts only
  when location and day count are both the same. An operation that finds a fresh entry
  under its key returns it and calls nobody; one that finds none and is answered with a
  well-formed payload returns the result, has made one call, and has stored the result
  under its own key with the time of the write. Every other key is left as it was, so a
  later call for another location (or for another day count) has the result and makes the
  provider calls it would have made without the earlier one.
\<close>

theorem C3_cache_keys:
  "(currentKey L1 = ''current_'' @ L1) \<and> (currentKey L1 = currentKey L2 \<longleftrightarrow> L1 = L2) \<and>
   (forecastKey L1 d1 = forecastKey L2 d2 \<longleftrightarrow> L1 = L2 \<and> d1 = d2) \<and>
   (\<forall>w. result (getCurrentWeather a u t t' L1) = Inr w \<and>
        calls (getCurrentWeather a u t t' L1) \<noteq> [] \<longrightarrow>
        cache (wcache (api (getCurrentWeather a u t t' L1))) (currentKey L1)
          = Some \<lparr>data = w, timestamp = t'\<rparr>) \<and>
   (\<forall>w. result (getForecast a u t t' L1 d1) = Inr w \<and>
        calls (getForecast a u t t' L1 d1) \<noteq> [] \<longrightarrow>
        cache (wcache (api (getForecast a u t t' L1 d1))) (forecastKey L1 d1)
          = Some \<lparr>data = w, timestamp = t'\<rparr>) \<and>
   (\<forall>K. K \<noteq> currentKey L1 \<longrightarrow>
        cache (wcache (api (getCurrentWeather a u t t' L1))) K = cache (wcache a) K) \<and>
   (\<forall>K. K \<noteq> forecastKey L1 d1 \<longrightarrow>
        cache (wcache (api (getForecast a u t t' L1 d1))) K = cache (wcache a) K) \<and>
   (L1 \<noteq> L2 \<longrightarrow>
        result (getCurrentWeather (api (getCurrentWeather a u t t' L1)) u2 t2 t2' L2)
          = result (getCurrentWeather a u2 t2 t2' L2) \<and>
        calls (getCurrentWeather (api (getCurrentWeather a u t t' L1)) u2 t2 t2' L2)
          = calls (getCurrentWeather a u2 t2 t2' L2)) \<and>
   (L1 \<noteq> L2 \<or> d1 \<noteq> d2 \<longrightarrow>
        result (getForecast (api (getForecast a u t t' L1 d1)) u2 t2 t2' L2 d2)
          = result (getForecast a u2 t2 t2' L2 d2) \<and>
        calls (getForecast (api (getForecast a u t t' L1 d1)) u2 t2 t2' L2 d2)
          = calls (getForecast a u2 t2 t2' L2 d2)) \<and>
   (\<forall>d w. \<not> truthy (orNull (fst (WeatherCache_get (wcache a) t (currentKey L1)))) \<and>
        u (currentRequest a L1) = Resolved d \<and> weatherDataOf d = Some w \<longrightarrow>
        result (getCurrentWeather a u t t' L1) = Inr w \<and>
        calls (getCurrentWeather a u t t' L1) = [currentRequest a L1] \<and>
        cache (wcache (api (getCurrentWeather a u t t' L1))) (currentKey L1)
          = Some \<lparr>data = w, timestamp = t'\<rparr>) \<and>
   (\<forall>d w. \<not> truthy (orNull (fst (WeatherCache_get (wcache a) t (forecastKey L1 d1)))) \<and>
        u (forecastRequest a L1 d1) = Resolved d \<and> forecastDataOf d = Some w \<longrightarrow>
        result (getForecast a u t t' L1 d1) = Inr w \<and>
        calls (getForecast a u t t' L1 d1) = [forecastRequest a L1 d1] \<and>
        cache (wcache (api (getForecast a u t t' L1 d1))) (forecastKey L1 d1)
          = Some \<lparr>data = w, timestamp = t'\<rparr>) \<and>
   (\<forall>e. cache (wcache a) (currentKey L1) = Some e \<and>
        t - timestamp e < cacheDuration (wcache a) \<and> truthy (data e) \<longrightarrow>
        getCurrentWeather a u t t' L1 = \<lparr>result = Inr (data e), api = a, calls = []\<rparr>) \<and>
   (\<forall>e. cache (wcache a) (forecastKey L1 d1) = Some e \<and>
        t - timestamp e < cacheDuration (wcache a) \<and> truthy (data e) \<longrightarrow>
        getForecast a u t t' L1 d1 = \<lparr>result = Inr (data e), api = a, calls = []\<rparr>) \<and>
   (\<bar>d1\<bar> < safeLimit \<longrightarrow> forecastKey L1 d1 = ''forecast_'' @ L1 @ ''_'' @ showInt d1)"
proof -
  have cur: "L1 \<noteq> L2 \<longrightarrow>
        result (getCurrentWeather (api (getCurrentWeather a u t t' L1)) u2 t2 t2' L2)
          = result (getCurrentWeather a u2 t2 t2' L2) \<and>
        calls (getCurrentWeather (api (getCurrentWeather a u t t' L1)) u2 t2 t2' L2)
          = calls (getCurrentWeather a u2 t2 t2' L2)"
  proof
    assume "L1 \<noteq> L2"
    then have "currentKey L2 \<noteq> currentKey L1" by (simp add: currentKey_inject)
    then show "result (getCurrentWeather (api (getCurrentWeather a u t t' L1)) u2 t2 t2' L2)
          = result (getCurrentWeather a u2 t2 t2' L2) \<and>
        calls (getCurrentWeather (api (getCurrentWeather a u t t' L1)) u2 t2 t2' L2)
          = calls (getCurrentWeather a u2 t2 t2' L2)"
      by (intro getCurrentWeather_depends) (simp_all add: getCurrentWeather_other_key)
  qed
  have fc: "L1 \<noteq> L2 \<or> d1 \<noteq> d2 \<longrightarrow>
        result (getForecast (api (getForecast a u t t' L1 d1)) u2 t2 t2' L2 d2)
          = result (getForecast a u2 t2 t2' L2 d2) \<and>
        calls (getForecast (api (getForecast a u t t' L1 d1)) u2 t2 t2' L2 d2)
          = calls (getForecast a u2 t2 t2' L2 d2)"
  proof
    assume "L1 \<noteq> L2 \<or> d1 \<noteq> d2"
    then have "forecastKey L2 d2 \<noteq> forecastKey L1 d1"
      by (auto simp: forecastKey_inject)
    then show "result (getForecast (api (getForecast a u t t' L1 d1)) u2 t2 t2' L2 d2)
          = result (getForecast a u2 t2 t2' L2 d2) \<and>
        calls (getForecast (api (getForecast a u t t' L1 d1)) u2 t2 t2' L2 d2)
          = calls (getForecast a u2 t2 t2' L2 d2)"
      by (intro getForecast_depends) (simp_all add: getForecast_other_key)
  qed
  have keys: "(currentKey L1 = currentKey L2 \<longleftrightarrow> L1 = L2) \<and>
      (forecastKey L1 d1 = forecastKey L2 d2 \<longleftrightarrow> L1 = L2 \<and> d1 = d2)"
    by (simp add: forecastKey_inject currentKey_inject)
  have keydef: "currentKey L1 = ''current_'' @ L1"
    by (simp add: currentKey_def)
  have stores: "(\<forall>w. result (getCurrentWeather a u t t' L1) = Inr w \<and>
        calls (getCurrentWeather a u t t' L1) \<noteq> [] \<longrightarrow>
        cache (wcache (api (getCurrentWeather a u t t' L1))) (currentKey L1)
          = Some \<lparr>data = w, timestamp = t'\<rparr>) \<and>
   (\<forall>w. result (getForecast a u t t' L1 d1) = Inr w \<and>
        calls (getForecast a u t t' L1 d1) \<noteq> [] \<longrightarrow>
        cache (wcache (api (getForecast a u t t' L1 d1))) (forecastKey L1 d1)
          = Some \<lparr>data = w, timestamp = t'\<rparr>)"
    by (simp add: getCurrentWeather_stores getForecast_stores)
  have frame: "(\<forall>K. K \<noteq> currentKey L1 \<longrightarrow>
        cache (wcache (api (getCurrentWeather a u t t' L1))) K = cache (wcache a) K) \<and>
   (\<forall>K. K \<noteq> forecastKey L1 d1 \<longrightarrow>
        cache (wcache (api (getForecast a u t t' L1 d1))) K = cache (wcache a) K)"
    by (simp add: getCurrentWeather_other_key getForecast_other_key)
  have fetchc: "\<forall>d w. \<not> truthy (orNull (fst (WeatherCache_get (wcache a) t (currentKey L1)))) \<and>
        u (currentRequest a L1) = Resolved d \<and> weatherDataOf d = Some w \<longrightarrow>
        result (getCurrentWeather a u t t' L1) = Inr w \<and>
        calls (getCurrentWeather a u t t' L1) = [currentRequest a L1] \<and>
        cache (wcache (api (getCurrentWeather a u t t' L1))) (currentKey L1)
          = Some \<lparr>data = w, timestamp = t'\<rparr>"
    by (auto simp: getCurrentWeather_def Let_def split: prod.splits)
  have fetchf: "\<forall>d w. \<not> truthy (orNull (fst (WeatherCache_get (wcache a) t (forecastKey L1 d1)))) \<and>
        u (forecastRequest a L1 d1) = Resolved d \<and> forecastDataOf d = Some w \<longrightarrow>
        result (getForecast a u t t' L1 d1) = Inr w \<and>
        calls (getForecast a u t t' L1 d1) = [forecastRequest a L1 d1] \<and>
        cache (wcache (api (getForecast a u t t' L1 d1))) (forecastKey L1 d1)
          = Some \<lparr>data = w, timestamp = t'\<rparr>"
    by (auto simp: getForecast_def Let_def split: prod.splits)
  have hitc: "\<forall>e. cache (wcache a) (currentKey L1) = Some e \<and>
        t - timestamp e < cacheDuration (wcache a) \<and> truthy (data e) \<longrightarrow>
        getCurrentWeather a u t t' L1 = \<lparr>result = Inr (data e), api = a, calls = []\<rparr>"
    by (simp add: getCurrentWeather_hit)
  have hitf: "\<forall>e. cache (wcache a) (forecastKey L1 d1) = Some e \<and>
        t - timestamp e < cacheDuration (wcache a) \<and> truthy (data e) \<longrightarrow>
        getForecast a u t t' L1 d1 = \<lparr>result = Inr (data e), api = a, calls = []\<rparr>"
    by (simp add: getForecast_hit)
  have keytext: "\<bar>d1\<bar> < safeLimit \<longrightarrow> forecastKey L1 d1 = ''forecast_'' @ L1 @ ''_'' @ showInt d1"
    by (simp add: forecastKey_def)
  show ?thesis
    by (intro conjI keydef keys [THEN conjunct1] keys [THEN conjunct2] stores [THEN conjunct1]
        stores [THEN conjunct2] frame [THEN conjunct1] frame [THEN conjunct2] cur fc
        fetchc fetchf hitc hitf keytext)
qed

theorem C3_cache_keys_witness:
  "currentKey ''Paris'' = ''current_Paris'' \<and>
   currentKey ''Paris'' \<noteq> currentKey ''paris'' \<and>
   forecastKey ''Tokyo'' 3 = ''forecast_Tokyo_3'' \<and>
   forecastKey ''Tokyo'' 3 \<noteq> forecastKey ''Tokyo'' 5 \<and>
   calls (getCurrentWeather (WeatherAPI_new ''key'' 100) (\<lambda>r. Resolved sampleCurrent) 0 0 ''Paris'')
     = [currentRequest (WeatherAPI_new ''key'' 100) ''Paris''] \<and>
   calls (getCurrentWeather
       (api (getCurrentWeather (WeatherAPI_new ''key'' 100) (\<lambda>r. Resolved sampleCurrent) 0 0 ''Paris''))
       (\<lambda>r. Resolved sampleCurrent) 1 1 ''paris'')
     = [currentRequest (WeatherAPI_new ''key'' 100) ''paris''] \<and>
   cache (wcache (api (getCurrentWeather
       (api (getCurrentWeather (WeatherAPI_new ''key'' 100) (\<lambda>r. Resolved sampleCurrent) 0 0 ''Paris''))
       (\<lambda>r. Resolved sampleCurrent) 1 1 ''paris''))) (currentKey ''Paris'')
     = Some \<lparr>data = sampleWeatherResponse, timestamp = 0\<rparr> \<and>
   cache (wcache (api (getCurrentWeather
       (api (getCurrentWeather (WeatherAPI_new ''key'' 100) (\<lambda>r. Resolved sampleCurrent) 0 0 ''Paris''))
       (\<lambda>r. Resolved sampleCurrent) 1 1 ''paris''))) (currentKey ''paris'')
     = Some \<lparr>data = sampleWeatherResponse, timestamp = 1\<rparr> \<and>
   result (getForecast (WeatherAPI_new ''key'' 100) forecastProvider 0 0 ''Tokyo'' 3)
     = Inr sampleForecastResponse \<and>
   calls (getForecast (WeatherAPI_new ''key'' 100) forecastProvider 0 0 ''Tokyo'' 3)
     = [forecastRequest (WeatherAPI_new ''key'' 100) ''Tokyo'' 3] \<and>
   cache (wcache (api (getForecast (WeatherAPI_new ''key'' 100) forecastProvider 0 0 ''Tokyo'' 3)))
       (forecastKey ''Tokyo'' 3)
     = Some \<lparr>data = sampleForecastResponse, timestamp = 0\<rparr> \<and>
   calls (getForecast
       (api (getForecast (WeatherAPI_new ''key'' 100) forecastProvider 0 0 ''Tokyo'' 3))
       forecastProvider 1 1 ''Tokyo'' 5)
     = [forecastRequest (WeatherAPI_new ''key'' 100) ''Tokyo'' 5] \<and>
   cache (wcache (api (getForecast
       (api (getForecast (WeatherAPI_new ''key'' 100) forecastProvider 0 0 ''Tokyo'' 3))
       forecastProvider 1 1 ''Tokyo'' 5))) (forecastKey ''Tokyo'' 3)
     = Some \<lparr>data = sampleForecastResponse, timestamp = 0\<rparr> \<and>
   cache (wcache (api (getForecast
       (api (getForecast (WeatherAPI_new ''key'' 100) forecastProvider 0 0 ''Tokyo'' 3))
       forecastProvider 1 1 ''Tokyo'' 5))) (forecastKey ''Tokyo'' 5)
     = Some \<lparr>data = sampleForecastResponse, timestamp = 1\<rparr> \<and>
   getForecast
       (api (getForecast
          (api (getForecast (WeatherAPI_new ''key'' 100) forecastProvider 0 0 ''Tokyo'' 3))
          forecastProvider 1 1 ''Tokyo'' 5))
       (\<lambda>r. Rejected None) 50 50 ''Tokyo'' 3
     = \<lparr>result = Inr sampleForecastResponse,
        api = api (getForecast
          (api (getForecast (WeatherAPI_new ''key'' 100) forecastProvider 0 0 ''Tokyo'' 3))
          forecastProvider 1 1 ''Tokyo'' 5),
        calls = []\<rparr>"
proof -
  let ?a = "WeatherAPI_new ''key'' 100"
  let ?uc = "\<lambda>r :: request. Resolved sampleCurrent"
  let ?uf = "forecastProvider"
  let ?down = "\<lambda>r :: request. Rejected None"
  let ?P = "getCurrentWeather ?a ?uc 0 0 ''Paris''"
  let ?p = "getCurrentWeather (api ?P) ?uc 1 1 ''paris''"
  let ?T3 = "getForecast ?a ?uf 0 0 ''Tokyo'' 3"
  let ?T5 = "getForecast (api ?T3) ?uf 1 1 ''Tokyo'' 5"
  let ?K3 = "forecastKey ''Tokyo'' 3"
  let ?K5 = "forecastKey ''Tokyo'' 5"
  let ?swr = "\<lparr>data = sampleWeatherResponse, timestamp = 0 :: int\<rparr>"
  note iP = C3_cache_keys [where a = ?a and u = ?uc and t = 0 and t' = 0 and ?L1.0 = "''Paris''"
      and ?L2.0 = "''paris''" and ?d1.0 = 3 and ?d2.0 = 5]
  note ip = C3_cache_keys [where a = "api ?P" and u = ?uc and t = 1 and t' = 1
      and ?L1.0 = "''paris''" and ?L2.0 = "''Paris''" and ?d1.0 = 3 and ?d2.0 = 5]
  note i3 = C3_cache_keys [where a = ?a and u = ?uf and t = 0 and t' = 0 and ?L1.0 = "''Tokyo''"
      and ?L2.0 = "''Tokyo''" and ?d1.0 = 3 and ?d2.0 = 5]
  note i5 = C3_cache_keys [where a = "api ?T3" and u = ?uf and t = 1 and t' = 1
      and ?L1.0 = "''Tokyo''" and ?L2.0 = "''Tokyo''" and ?d1.0 = 5 and ?d2.0 = 3]
  note ih = C3_cache_keys [where a = "api ?T5" and u = ?down and t = 50 and t' = 50
      and ?L1.0 = "''Tokyo''" and ?L2.0 = "''Tokyo''" and ?d1.0 = 3 and ?d2.0 = 5]
  have key: "currentKey ''Paris'' = ''current_Paris''"
    using iP [THEN conjunct1] by simp
  have ne: "currentKey ''Paris'' \<noteq> currentKey ''paris''"
    using iP [THEN conjunct2, THEN conjunct1] by simp
  have nef: "?K3 \<noteq> ?K5"
    using i3 [THEN conjunct2, THEN conjunct2, THEN conjunct1] by simp
  have "\<bar>3 :: int\<bar> < safeLimit" by (simp add: safeLimit_def)
  with i3 have "?K3 = ''forecast_'' @ ''Tokyo'' @ ''_'' @ showInt 3" by blast
  then have keyf: "?K3 = ''forecast_Tokyo_3''"
    by (simp add: showInt_def showNat.simps digitChar_def)
  \<comment> \<open>current weather: Paris, then paris\<close>
  have "\<not> truthy (orNull (fst (WeatherCache_get (wcache ?a) 0 (currentKey ''Paris'')))) \<and>
      ?uc (currentRequest ?a ''Paris'') = Resolved sampleCurrent \<and>
      weatherDataOf sampleCurrent = Some sampleWeatherResponse"
    by (simp add: get_absent orNull_def weatherDataOf_sample)
  with iP have P: "calls ?P = [currentRequest ?a ''Paris'']"
      "cache (wcache (api ?P)) (currentKey ''Paris'') = Some ?swr"
    by blast+
  from iP ne have "cache (wcache (api ?P)) (currentKey ''paris'') = cache (wcache ?a) (currentKey ''paris'')"
    by metis
  then have "\<not> truthy (orNull (fst (WeatherCache_get (wcache (api ?P)) 1 (currentKey ''paris'')))) \<and>
      ?uc (currentRequest (api ?P) ''paris'') = Resolved sampleCurrent \<and>
      weatherDataOf sampleCurrent = Some sampleWeatherResponse"
    by (simp add: get_absent orNull_def weatherDataOf_sample)
  with ip have p: "calls ?p = [currentRequest (api ?P) ''paris'']"
      "cache (wcache (api ?p)) (currentKey ''paris'')
         = Some \<lparr>data = sampleWeatherResponse, timestamp = 1\<rparr>"
    by blast+
  have reqp: "currentRequest (api ?P) ''paris'' = currentRequest ?a ''paris''"
    by (simp add: currentRequest_def)
  from ip ne have "cache (wcache (api ?p)) (currentKey ''Paris'') = cache (wcache (api ?P)) (currentKey ''Paris'')"
    by metis
  with P(2) have keptc: "cache (wcache (api ?p)) (currentKey ''Paris'') = Some ?swr"
    by simp
  \<comment> \<open>forecasts: Tokyo for 3 days, then for 5 days, then for 3 days again\<close>
  have "\<not> truthy (orNull (fst (WeatherCache_get (wcache ?a) 0 ?K3))) \<and>
      ?uf (forecastRequest ?a ''Tokyo'' 3) = Resolved sampleForecast \<and>
      forecastDataOf sampleForecast = Some sampleForecastResponse"
    by (simp add: get_absent orNull_def forecastDataOf_sample forecastProvider_def)
  with i3 have T3: "result ?T3 = Inr sampleForecastResponse"
      "calls ?T3 = [forecastRequest ?a ''Tokyo'' 3]"
      "cache (wcache (api ?T3)) ?K3 = Some \<lparr>data = sampleForecastResponse, timestamp = 0\<rparr>"
    by blast+
  from i3 nef have "cache (wcache (api ?T3)) ?K5 = cache (wcache ?a) ?K5"
    by metis
  then have "\<not> truthy (orNull (fst (WeatherCache_get (wcache (api ?T3)) 1 ?K5))) \<and>
      ?uf (forecastRequest (api ?T3) ''Tokyo'' 5) = Resolved sampleForecast \<and>
      forecastDataOf sampleForecast = Some sampleForecastResponse"
    by (simp add: get_absent orNull_def forecastDataOf_sample forecastProvider_def)
  with i5 have T5: "calls ?T5 = [forecastRequest (api ?T3) ''Tokyo'' 5]"
      "cache (wcache (api ?T5)) ?K5 = Some \<lparr>data = sampleForecastResponse, timestamp = 1\<rparr>"
    by blast+
  have req5: "forecastRequest (api ?T3) ''Tokyo'' 5 = forecastRequest ?a ''Tokyo'' 5"
    by (simp add: forecastRequest_def)
  from i5 nef have "cache (wcache (api ?T5)) ?K3 = cache (wcache (api ?T3)) ?K3"
    by metis
  with T3(3) have kept: "cache (wcache (api ?T5)) ?K3
      = Some \<lparr>data = sampleForecastResponse, timestamp = 0\<rparr>"
    by simp
  have "cache (wcache (api ?T5)) ?K3 = Some \<lparr>data = sampleForecastResponse, timestamp = 0\<rparr> \<and>
      50 - timestamp \<lparr>data = sampleForecastResponse, timestamp = 0\<rparr>
        < cacheDuration (wcache (api ?T5)) \<and>
      truthy (data \<lparr>data = sampleForecastResponse, timestamp = 0 :: int\<rparr>)"
    using kept by (simp add: sampleForecastResponse_def)
  with ih have "getForecast (api ?T5) ?down 50 50 ''Tokyo'' 3
      = \<lparr>result = Inr (data \<lparr>data = sampleForecastResponse, timestamp = 0 :: int\<rparr>),
         api = api ?T5, calls = []\<rparr>"
    by blast
  then have hit: "getForecast (api ?T5) ?down 50 50 ''Tokyo'' 3
      = \<lparr>result = Inr sampleForecastResponse, api = api ?T5, calls = []\<rparr>"
    by simp
  show ?thesis
    by (intro conjI key ne keyf nef P(1) p(1) [unfolded reqp] keptc p(2) T3 T5(1) [unfolded req5]
        kept T5(2) hit)
qed

text \<open>
  Claim C4. If \<open>getCurrentWeather(L)\<close> succeeds with the snapshot \<open>w\<close>, the cache then holds
  \<open>w\<close> itself under the key of \<open>L\<close>, written at the time of the cache write when the
  provider was called. A second \<open>getCurrentWeather(L)\<close> at any time before that entry is
  \<open>D\<close> old returns \<open>w\<close>, makes no call to the provider, whatever the provider would
  answer, and leaves the gateway as it is.
\<close>

theorem C4_hit_avoids_upstream:
  assumes ok: "result (getCurrentWeather a u1 t1 t1' L) = Inr w"
  shows "\<exists>e. cache (wcache (api (getCurrentWeather a u1 t1 t1' L))) (currentKey L) = Some e \<and>
           data e = w \<and>
           (calls (getCurrentWeather a u1 t1 t1' L) \<noteq> [] \<longrightarrow> timestamp e = t1') \<and>
           (\<forall>t2 t2' u2. t2 < timestamp e + cacheDuration (wcache a) \<longrightarrow>
              getCurrentWeather (api (getCurrentWeather a u1 t1 t1' L)) u2 t2 t2' L
                = \<lparr>result = Inr w, api = api (getCurrentWeather a u1 t1 t1' L), calls = []\<rparr>)"
proof (cases "truthy (orNull (fst (WeatherCache_get (wcache a) t1 (currentKey L))))")
  case True
  then obtain v where v: "fst (WeatherCache_get (wcache a) t1 (currentKey L)) = Some v"
    by (cases "fst (WeatherCache_get (wcache a) t1 (currentKey L))") (auto simp: orNull_def)
  from get_Some_unchanged [OF v] obtain e where
    same: "snd (WeatherCache_get (wcache a) t1 (currentKey L)) = wcache a" and
    e: "cache (wcache a) (currentKey L) = Some e" "data e = v"
       "t1 - timestamp e < cacheDuration (wcache a)"
    by blast
  from True v have tv: "truthy v" by (simp add: orNull_def)
  have first: "getCurrentWeather a u1 t1 t1' L = \<lparr>result = Inr v, api = a, calls = []\<rparr>"
    using getCurrentWeather_hit [OF e(1) e(3)] tv e(2) by simp
  with ok have wv: "w = v" by simp
  have "\<forall>t2 t2' u2. t2 < timestamp e + cacheDuration (wcache a) \<longrightarrow>
      getCurrentWeather a u2 t2 t2' L = \<lparr>result = Inr w, api = a, calls = []\<rparr>"
  proof (intro allI impI)
    fix t2 t2' :: int and u2
    assume "t2 < timestamp e + cacheDuration (wcache a)"
    then have "t2 - timestamp e < cacheDuration (wcache a)" by simp
    from getCurrentWeather_hit [OF e(1) this] tv e(2) wv
    show "getCurrentWeather a u2 t2 t2' L = \<lparr>result = Inr w, api = a, calls = []\<rparr>"
      by simp
  qed
  with e wv first show ?thesis by simp
next
  case False
  let ?c1 = "snd (WeatherCache_get (wcache a) t1 (currentKey L))"
  let ?e = "\<lparr>data = w, timestamp = t1'\<rparr>"
  let ?a1 = "api (getCurrentWeather a u1 t1 t1' L)"
  from False ok obtain d where d: "u1 (currentRequest a L) = Resolved d" "weatherDataOf d = Some w"
    by (auto simp: getCurrentWeather_result split: reply.splits option.splits)
  from False have called: "calls (getCurrentWeather a u1 t1 t1' L) \<noteq> []"
    by (simp add: getCurrentWeather_calls)
  from getCurrentWeather_stores [OF ok called]
  have stored: "cache (wcache ?a1) (currentKey L) = Some ?e" .
  have tw: "truthy w" using d(2) by (rule weatherDataOf_truthy)
  have "\<forall>t2 t2' u2. t2 < timestamp ?e + cacheDuration (wcache a) \<longrightarrow>
      getCurrentWeather ?a1 u2 t2 t2' L = \<lparr>result = Inr w, api = ?a1, calls = []\<rparr>"
  proof (intro allI impI)
    fix t2 t2' :: int and u2
    assume "t2 < timestamp ?e + cacheDuration (wcache a)"
    then have "t2 - timestamp ?e < cacheDuration (wcache ?a1)" by simp
    from getCurrentWeather_hit [OF stored this] tw
    show "getCurrentWeather ?a1 u2 t2 t2' L = \<lparr>result = Inr w, api = ?a1, calls = []\<rparr>"
      by simp
  qed
  with stored show ?thesis by simp
qed

theorem C4_hit_avoids_upstream_witness:
  "result (getCurrentWeather (WeatherAPI_new ''key'' 100) (\<lambda>r. Resolved sampleCurrent) 0 5 ''Berlin'')
     = Inr sampleWeatherResponse \<and>
   calls (getCurrentWeather (WeatherAPI_new ''key'' 100) (\<lambda>r. Resolved sampleCurrent) 0 5 ''Berlin'')
     = [currentRequest (WeatherAPI_new ''key'' 100) ''Berlin''] \<and>
   getCurrentWeather
     (api (getCurrentWeather (WeatherAPI_new ''key'' 100) (\<lambda>r. Resolved sampleCurrent) 0 5 ''Berlin''))
     (\<lambda>r. Rejected None) 104 104 ''Berlin''
     = \<lparr>result = Inr sampleWeatherResponse,
        api = api (getCurrentWeather (WeatherAPI_new ''key'' 100)
                (\<lambda>r. Resolved sampleCurrent) 0 5 ''Berlin''),
        calls = []\<rparr>"
proof -
  let ?a = "WeatherAPI_new ''key'' 100"
  let ?u = "\<lambda>r :: request. Resolved sampleCurrent"
  let ?first = "getCurrentWeather ?a ?u 0 5 ''Berlin''"
  have first: "?first =
     \<lparr>result = Inr sampleWeatherResponse,
      api = ?a\<lparr>wcache := WeatherCache_set (wcache ?a) 5 (currentKey ''Berlin'') sampleWeatherResponse\<rparr>,
      calls = [currentRequest ?a ''Berlin'']\<rparr>"
    by (rule getCurrentWeather_absent [where d = sampleCurrent]) (simp_all add: weatherDataOf_sample)
  then have ok: "result ?first = Inr sampleWeatherResponse"
    and called: "calls ?first = [currentRequest ?a ''Berlin'']"
    by simp_all
  from C4_hit_avoids_upstream [OF ok] obtain e where
    all: "cache (wcache (api ?first)) (currentKey ''Berlin'') = Some e \<and>
      data e = sampleWeatherResponse \<and>
      (calls ?first \<noteq> [] \<longrightarrow> timestamp e = 5) \<and>
      (\<forall>t2 t2' u2. t2 < timestamp e + cacheDuration (wcache ?a) \<longrightarrow>
         getCurrentWeather (api ?first) u2 t2 t2' ''Berlin''
           = \<lparr>result = Inr sampleWeatherResponse, api = api ?first, calls = []\<rparr>)" ..
  note e = all [THEN conjunct2, THEN conjunct2, THEN conjunct1]
    all [THEN conjunct2, THEN conjunct2, THEN conjunct2]
  from e(1) called have "timestamp e = 5" by simp
  then have "(104::int) < timestamp e + cacheDuration (wcache ?a)" by simp
  with e(2) have "getCurrentWeather (api ?first) (\<lambda>r. Rejected None) 104 104 ''Berlin''
      = \<lparr>result = Inr sampleWeatherResponse, api = api ?first, calls = []\<rparr>"
    by blast
  with ok called show ?thesis by simp
qed

text \<open>
  Claim C5. \<open>searchLocations(Q)\<close> makes exactly one call to the provider, the search
  request for \<open>Q\<close>, on every call, and so does a second call right after the first. It
  leaves the gateway with its cache unchanged, and its result and its call are the same
  whatever the cache holds.
\<close>

theorem C5_search_never_cached:
  "calls (searchLocations a u Q) = [searchRequest a Q] \<and>
   api (searchLocations a u Q) = a \<and>
   calls (searchLocations (api (searchLocations a u Q)) u2 Q) = [searchRequest a Q] \<and>
   wcache (api (searchLocations a u Q)) = wcache a \<and>
   result (searchLocations (a\<lparr>wcache := c\<rparr>) u Q) = result (searchLocations a u Q) \<and>
   calls (searchLocations (a\<lparr>wcache := c\<rparr>) u Q) = calls (searchLocations a u Q) \<and>
   snd (route_search a u Q) = (a, [searchRequest a Q])"
proof -
  have calls: "calls (searchLocations b v Q) = [searchRequest b Q]" for b v
    by (simp add: searchLocations_def split: reply.splits)
  have same: "api (searchLocations b v Q) = b" for b v
    by (simp add: searchLocations_def split: reply.splits)
  have req: "searchRequest (a\<lparr>wcache := c\<rparr>) Q = searchRequest a Q"
    by (simp add: searchRequest_def)
  have res: "result (searchLocations (a\<lparr>wcache := c\<rparr>) u Q) = result (searchLocations a u Q)"
    by (simp add: searchLocations_def req split: reply.splits)
  have route: "snd (route_search a u Q) = (a, [searchRequest a Q])"
    by (simp add: route_search_def calls same)
  show ?thesis
    by (simp add: calls same req res route)
qed

theorem C5_search_never_cached_witness:
  "calls (searchLocations (WeatherAPI_new ''key'' 100) (\<lambda>r. Resolved (JArr [sampleLocation])) ''London'')
     = [\<lparr>url = ''http://api.weatherapi.com/v1/search.json'',
         params = [(''key'', JStr ''key''), (''q'', JStr ''London'')]\<rparr>] \<and>
   calls (searchLocations
       (api (searchLocations (WeatherAPI_new ''key'' 100)
          (\<lambda>r. Resolved (JArr [sampleLocation])) ''London''))
       (\<lambda>r. Resolved (JArr [sampleLocation])) ''London'')
     = [\<lparr>url = ''http://api.weatherapi.com/v1/search.json'',
         params = [(''key'', JStr ''key''), (''q'', JStr ''London'')]\<rparr>] \<and>
   result (searchLocations (WeatherAPI_new ''key'' 100) (\<lambda>r. Resolved (JArr [sampleLocation])) ''London'')
     = Inr (JArr [JObj [(''name'', JStr ''Berlin''), (''region'', JStr ''Berlin''),
          (''country'', JStr ''Germany''), (''lat'', JNum 52.52), (''lon'', JNum 13.4)]])"
proof -
  let ?a = "WeatherAPI_new ''key'' 100"
  let ?u = "\<lambda>r :: request. Resolved (JArr [sampleLocation])"
  have req: "searchRequest ?a ''London'' = \<lparr>url = ''http://api.weatherapi.com/v1/search.json'',
         params = [(''key'', JStr ''key''), (''q'', JStr ''London'')]\<rparr>"
    by (simp add: searchRequest_def WeatherAPI_new_def)
  have res: "result (searchLocations ?a ?u ''London'')
     = Inr (JArr [JObj [(''name'', JStr ''Berlin''), (''region'', JStr ''Berlin''),
          (''country'', JStr ''Germany''), (''lat'', JNum 52.52), (''lon'', JNum 13.4)]])"
    by (simp add: searchLocations_def arrayMap_def searchLocation_def sampleLocation_def getProp_def)
  from C5_search_never_cached [where a = ?a and u = ?u and ?u2.0 = ?u and Q = "''London''"] req res
  show ?thesis by simp
qed

section \<open>The field mapping\<close>

lemma weatherDataOf_SomeD:
  assumes "weatherDataOf d = Some w"
  shows "\<exists>name region country lat lon localTime tempC tempF condition windKph windDir
           humidity feelsLikeC feelsLikeF uv airQuality.
     path d [''location'', ''name''] = Some name \<and>
     path d [''location'', ''region''] = Some region \<and>
     path d [''location'', ''country''] = Some country \<and>
     path d [''location'', ''lat''] = Some lat \<and>
     path d [''location'', ''lon''] = Some lon \<and>
     path d [''location'', ''localtime''] = Some localTime \<and>
     path d [''current'', ''temp_c''] = Some tempC \<and>
     path d [''current'', ''temp_f''] = Some tempF \<and>
     path d [''current'', ''condition'', ''text''] = Some condition \<and>
     path d [''current'', ''wind_kph''] = Some windKph \<and>
     path d [''current'', ''wind_dir''] = Some windDir \<and>
     path d [''current'', ''humidity''] = Some humidity \<and>
     path d [''current'', ''feelslike_c''] = Some feelsLikeC \<and>
     path d [''current'', ''feelslike_f''] = Some feelsLikeF \<and>
     path d [''current'', ''uv''] = Some uv \<and>
     path d [''current'', ''air_quality''] = Some airQuality \<and>
     w = JObj
       [(''location'', JObj
           [(''name'', name), (''region'', region), (''country'', country),
            (''lat'', lat), (''lon'', lon), (''localTime'', localTime)]),
        (''current'', JObj
           [(''tempC'', tempC), (''tempF'', tempF), (''condition'', condition),
            (''windKph'', windKph), (''windDir'', windDir), (''humidity'', humidity),
            (''feelsLikeC'', feelsLikeC), (''feelsLikeF'', feelsLikeF), (''uv'', uv),
            (''airQuality'', airQuality)])]"
  using assms unfolding weatherDataOf_def
  by (simp only: bind_eq_Some_conv option.inject) blast


lemma copiedI: "path d pd = Some x \<Longrightarrow> path w pw = Some x \<Longrightarrow> copied d pd w pw"
  by (simp add: copied_def)

lemma getCurrentWeather_fetched:
  assumes "\<not> truthy (orNull (fst (WeatherCache_get (wcache a) tGet (currentKey L))))"
    and "upstream (currentRequest a L) = Resolved d"
    and "result (getCurrentWeather a upstream tGet tSet L) = Inr w"
  shows "weatherDataOf d = Some w"
  using assms by (auto simp: getCurrentWeather_result split: option.splits)

lemma weatherDataOf_fields:
  assumes ok: "weatherDataOf d = Some w"
  shows
    "keysAt w [] = Some [''location'', ''current''] \<and>
     keysAt w [''location'']
       = Some [''name'', ''region'', ''country'', ''lat'', ''lon'', ''localTime''] \<and>
     keysAt w [''current'']
       = Some [''tempC'', ''tempF'', ''condition'', ''windKph'', ''windDir'', ''humidity'',
               ''feelsLikeC'', ''feelsLikeF'', ''uv'', ''airQuality''] \<and>
     copied d [''current'', ''temp_c''] w [''current'', ''tempC''] \<and>
     copied d [''current'', ''temp_f''] w [''current'', ''tempF''] \<and>
     copied d [''current'', ''condition'', ''text''] w [''current'', ''condition''] \<and>
     copied d [''current'', ''wind_kph''] w [''current'', ''windKph''] \<and>
     copied d [''current'', ''wind_dir''] w [''current'', ''windDir''] \<and>
     copied d [''current'', ''humidity''] w [''current'', ''humidity''] \<and>
     copied d [''current'', ''feelslike_c''] w [''current'', ''feelsLikeC''] \<and>
     copied d [''current'', ''feelslike_f''] w [''current'', ''feelsLikeF''] \<and>
     copied d [''current'', ''uv''] w [''current'', ''uv''] \<and>
     copied d [''current'', ''air_quality''] w [''current'', ''airQuality''] \<and>
     copied d [''location'', ''name''] w [''location'', ''name''] \<and>
     copied d [''location'', ''region''] w [''location'', ''region''] \<and>
     copied d [''location'', ''country''] w [''location'', ''country''] \<and>
     copied d [''location'', ''lat''] w [''location'', ''lat''] \<and>
     copied d [''location'', ''lon''] w [''location'', ''lon''] \<and>
     copied d [''location'', ''localtime''] w [''location'', ''localTime'']"
proof -
  from weatherDataOf_SomeD [OF ok]
  obtain name region country lat lon localTime tempC tempF condition windKph windDir
    humidity feelsLikeC feelsLikeF uv airQuality
    where loc: "path d [''location'', ''name''] = Some name"
      "path d [''location'', ''region''] = Some region"
      "path d [''location'', ''country''] = Some country"
      "path d [''location'', ''lat''] = Some lat"
      "path d [''location'', ''lon''] = Some lon"
      "path d [''location'', ''localtime''] = Some localTime"
    and cur: "path d [''current'', ''temp_c''] = Some tempC"
      "path d [''current'', ''temp_f''] = Some tempF"
      "path d [''current'', ''condition'', ''text''] = Some condition"
      "path d [''current'', ''wind_kph''] = Some windKph"
      "path d [''current'', ''wind_dir''] = Some windDir"
      "path d [''current'', ''humidity''] = Some humidity"
      "path d [''current'', ''feelslike_c''] = Some feelsLikeC"
      "path d [''current'', ''feelslike_f''] = Some feelsLikeF"
      "path d [''current'', ''uv''] = Some uv"
      "path d [''current'', ''air_quality''] = Some airQuality"
    and w: "w = JObj
       [(''location'', JObj
           [(''name'', name), (''region'', region), (''country'', country),
            (''lat'', lat), (''lon'', lon), (''localTime'', localTime)]),
        (''current'', JObj
           [(''tempC'', tempC), (''tempF'', tempF), (''condition'', condition),
            (''windKph'', windKph), (''windDir'', windDir), (''humidity'', humidity),
            (''feelsLikeC'', feelsLikeC), (''feelsLikeF'', feelsLikeF), (''uv'', uv),
            (''airQuality'', airQuality)])]"
    by blast
  have k0: "keysAt w [] = Some [''location'', ''current'']"
    by (simp add: w keysAt_def)
  have k1: "keysAt w [''location'']
       = Some [''name'', ''region'', ''country'', ''lat'', ''lon'', ''localTime'']"
    by (simp add: w keysAt_def getProp_def)
  have k2: "keysAt w [''current'']
       = Some [''tempC'', ''tempF'', ''condition'', ''windKph'', ''windDir'', ''humidity'',
               ''feelsLikeC'', ''feelsLikeF'', ''uv'', ''airQuality'']"
    by (simp add: w keysAt_def getProp_def)
  have c1: "copied d [''current'', ''temp_c''] w [''current'', ''tempC'']"
    by (rule copiedI [OF cur(1)]) (simp add: w getProp_def)
  have c2: "copied d [''current'', ''temp_f''] w [''current'', ''tempF'']"
    by (rule copiedI [OF cur(2)]) (simp add: w getProp_def)
  have c3: "copied d [''current'', ''condition'', ''text''] w [''current'', ''condition'']"
    by (rule copiedI [OF cur(3)]) (simp add: w getProp_def)
  have c4: "copied d [''current'', ''wind_kph''] w [''current'', ''windKph'']"
    by (rule copiedI [OF cur(4)]) (simp add: w getProp_def)
  have c5: "copied d [''current'', ''wind_dir''] w [''current'', ''windDir'']"
    by (rule copiedI [OF cur(5)]) (simp add: w getProp_def)
  have c6: "copied d [''current'', ''humidity''] w [''current'', ''humidity'']"
    by (rule copiedI [OF cur(6)]) (simp add: w getProp_def)
  have c7: "copied d [''current'', ''feelslike_c''] w [''current'', ''feelsLikeC'']"
    by (rule copiedI [OF cur(7)]) (simp add: w getProp_def)
  have c8: "copied d [''current'', ''feelslike_f''] w [''current'', ''feelsLikeF'']"
    by (rule copiedI [OF cur(8)]) (simp add: w getProp_def)
  have c9: "copied d [''current'', ''uv''] w [''current'', ''uv'']"
    by (rule copiedI [OF cur(9)]) (simp add: w getProp_def)
  have c10: "copied d [''current'', ''air_quality''] w [''current'', ''airQuality'']"
    by (rule copiedI [OF cur(10)]) (simp add: w getProp_def)
  have l1: "copied d [''location'', ''name''] w [''location'', ''name'']"
    by (rule copiedI [OF loc(1)]) (simp add: w getProp_def)
  have l2: "copied d [''location'', ''region''] w [''location'', ''region'']"
    by (rule copiedI [OF loc(2)]) (simp add: w getProp_def)
  have l3: "copied d [''location'', ''country''] w [''location'', ''country'']"
    by (rule copiedI [OF loc(3)]) (simp add: w getProp_def)
  have l4: "copied d [''location'', ''lat''] w [''location'', ''lat'']"
    by (rule copiedI [OF loc(4)]) (simp add: w getProp_def)
  have l5: "copied d [''location'', ''lon''] w [''location'', ''lon'']"
    by (rule copiedI [OF loc(5)]) (simp add: w getProp_def)
  have l6: "copied d [''location'', ''localtime''] w [''location'', ''localTime'']"
    by (rule copiedI [OF loc(6)]) (simp add: w getProp_def)
  show ?thesis
    by (intro conjI k0 k1 k2 c1 c2 c3 c4 c5 c6 c7 c8 c9 c10 l1 l2 l3 l4 l5 l6)
qed

lemma getProp_None: "getProp v name = None \<longleftrightarrow> nullish v"
  by (cases v) (simp_all add: getProp_def nullish_def)

lemma getProp_optProp: "\<not> nullish v \<Longrightarrow> getProp v name = Some (optProp v name)"
  by (cases v) (simp_all add: getProp_def nullish_def optProp_def)

lemma getProp_nullish: "nullish v \<Longrightarrow> getProp v name = None"
  by (simp add: getProp_None)

lemma path2_None:
  "path v [x, y] = None \<longleftrightarrow> nullish v \<or> nullish (optProp v x)"
  by (cases "nullish v") (simp_all add: getProp_None getProp_nullish getProp_optProp)

lemma path3_None:
  "path v [x, y, z] = None \<longleftrightarrow>
     nullish v \<or> nullish (optProp v x) \<or> nullish (optProp (optProp v x) y)"
  by (cases "nullish v"; cases "nullish (optProp v x)")
    (simp_all add: getProp_None getProp_nullish getProp_optProp)

lemma weatherDataOf_None:
  "weatherDataOf d = None \<longleftrightarrow>
     nullish d \<or> nullish (optProp d ''location'') \<or> nullish (optProp d ''current'') \<or>
     nullish (optProp (optProp d ''current'') ''condition'')"
proof -
  have "weatherDataOf d = None \<longleftrightarrow>
     path d [''location'', ''name''] = None \<or>
     path d [''location'', ''region''] = None \<or>
     path d [''location'', ''country''] = None \<or>
     path d [''location'', ''lat''] = None \<or>
     path d [''location'', ''lon''] = None \<or>
     path d [''location'', ''localtime''] = None \<or>
     path d [''current'', ''temp_c''] = None \<or>
     path d [''current'', ''temp_f''] = None \<or>
     path d [''current'', ''condition'', ''text''] = None \<or>
     path d [''current'', ''wind_kph''] = None \<or>
     path d [''current'', ''wind_dir''] = None \<or>
     path d [''current'', ''humidity''] = None \<or>
     path d [''current'', ''feelslike_c''] = None \<or>
     path d [''current'', ''feelslike_f''] = None \<or>
     path d [''current'', ''uv''] = None \<or>
     path d [''current'', ''air_quality''] = None"
    unfolding weatherDataOf_def
    by (auto simp del: path.simps simp add: bind_eq_None_conv)
  then show ?thesis
    unfolding path2_None path3_None by blast
qed

text \<open>
  Claim C6. Let \<open>getCurrentWeather\<close> find no usable cache entry and fetch the payload \<open>d\<close>.
  It succeeds exactly when \<open>d\<close>, \<open>d.location\<close>, \<open>d.current\<close> and \<open>d.current.condition\<close> are
  neither \<open>undefined\<close> nor \<open>null\<close>. The snapshot \<open>w\<close> it then returns has the properties
  \<open>location\<close> and \<open>current\<close> and no other; \<open>location\<close> has \<open>name\<close>, \<open>region\<close>, \<open>country\<close>,
  \<open>lat\<close>, \<open>lon\<close>, \<open>localTime\<close>; \<open>current\<close> has the ten properties \<open>tempC\<close> to \<open>airQuality\<close>;
  and each holds, unchanged, the value of the provider's property it is named after:
  \<open>temp_c\<close> in \<open>tempC\<close>, \<open>condition.text\<close> in \<open>condition\<close>, the whole of \<open>air_quality\<close> in
  \<open>airQuality\<close>, \<open>localtime\<close> in \<open>localTime\<close>, and so on.
\<close>

theorem C6_current_field_mapping:
  assumes miss: "\<not> truthy (orNull (fst (WeatherCache_get (wcache a) tGet (currentKey L))))"
    and up: "upstream (currentRequest a L) = Resolved d"
  shows
    "((\<exists>w. result (getCurrentWeather a upstream tGet tSet L) = Inr w) \<longleftrightarrow>
        \<not> nullish d \<and> \<not> nullish (optProp d ''location'') \<and>
        \<not> nullish (optProp d ''current'') \<and>
        \<not> nullish (optProp (optProp d ''current'') ''condition'')) \<and>
     (\<forall>w. result (getCurrentWeather a upstream tGet tSet L) = Inr w \<longrightarrow>
       keysAt w [] = Some [''location'', ''current''] \<and>
       keysAt w [''location'']
         = Some [''name'', ''region'', ''country'', ''lat'', ''lon'', ''localTime''] \<and>
       keysAt w [''current'']
         = Some [''tempC'', ''tempF'', ''condition'', ''windKph'', ''windDir'', ''humidity'',
                 ''feelsLikeC'', ''feelsLikeF'', ''uv'', ''airQuality''] \<and>
       copied d [''current'', ''temp_c''] w [''current'', ''tempC''] \<and>
       copied d [''current'', ''temp_f''] w [''current'', ''tempF''] \<and>
       copied d [''current'', ''condition'', ''text''] w [''current'', ''condition''] \<and>
       copied d [''current'', ''wind_kph''] w [''current'', ''windKph''] \<and>
       copied d [''current'', ''wind_dir''] w [''current'', ''windDir''] \<and>
       copied d [''current'', ''humidity''] w [''current'', ''humidity''] \<and>
       copied d [''current'', ''feelslike_c''] w [''current'', ''feelsLikeC''] \<and>
       copied d [''current'', ''feelslike_f''] w [''current'', ''feelsLikeF''] \<and>
       copied d [''current'', ''uv''] w [''current'', ''uv''] \<and>
       copied d [''current'', ''air_quality''] w [''current'', ''airQuality''] \<and>
       copied d [''location'', ''name''] w [''location'', ''name''] \<and>
       copied d [''location'', ''region''] w [''location'', ''region''] \<and>
       copied d [''location'', ''country''] w [''location'', ''country''] \<and>
       copied d [''location'', ''lat''] w [''location'', ''lat''] \<and>
       copied d [''location'', ''lon''] w [''location'', ''lon''] \<and>
       copied d [''location'', ''localtime''] w [''location'', ''localTime''])"
proof -
  have res: "result (getCurrentWeather a upstream tGet tSet L)
      = (case weatherDataOf d of None \<Rightarrow> Inl TypeError | Some w \<Rightarrow> Inr w)"
    using miss up by (simp add: getCurrentWeather_result)
  have "(\<exists>w. result (getCurrentWeather a upstream tGet tSet L) = Inr w)
      \<longleftrightarrow> weatherDataOf d \<noteq> None"
    unfolding res by (cases "weatherDataOf d") simp_all
  then have succeeds: "(\<exists>w. result (getCurrentWeather a upstream tGet tSet L) = Inr w) \<longleftrightarrow>
        \<not> nullish d \<and> \<not> nullish (optProp d ''location'') \<and>
        \<not> nullish (optProp d ''current'') \<and>
        \<not> nullish (optProp (optProp d ''current'') ''condition'')"
    unfolding weatherDataOf_None by blast
  have fields: "\<forall>w. result (getCurrentWeather a upstream tGet tSet L) = Inr w \<longrightarrow>
       keysAt w [] = Some [''location'', ''current''] \<and>
       keysAt w [''location'']
         = Some [''name'', ''region'', ''country'', ''lat'', ''lon'', ''localTime''] \<and>
       keysAt w [''current'']
         = Some [''tempC'', ''tempF'', ''condition'', ''windKph'', ''windDir'', ''humidity'',
                 ''feelsLikeC'', ''feelsLikeF'', ''uv'', ''airQuality''] \<and>
       copied d [''current'', ''temp_c''] w [''current'', ''tempC''] \<and>
       copied d [''current'', ''temp_f''] w [''current'', ''tempF''] \<and>
       copied d [''current'', ''condition'', ''text''] w [''current'', ''condition''] \<and>
       copied d [''current'', ''wind_kph''] w [''current'', ''windKph''] \<and>
       copied d [''current'', ''wind_dir''] w [''current'', ''windDir''] \<and>
       copied d [''current'', ''humidity''] w [''current'', ''humidity''] \<and>
       copied d [''current'', ''feelslike_c''] w [''current'', ''feelsLikeC''] \<and>
       copied d [''current'', ''feelslike_f''] w [''current'', ''feelsLikeF''] \<and>
       copied d [''current'', ''uv''] w [''current'', ''uv''] \<and>
       copied d [''current'', ''air_quality''] w [''current'', ''airQuality''] \<and>
       copied d [''location'', ''name''] w [''location'', ''name''] \<and>
       copied d [''location'', ''region''] w [''location'', ''region''] \<and>
       copied d [''location'', ''country''] w [''location'', ''country''] \<and>
       copied d [''location'', ''lat''] w [''location'', ''lat''] \<and>
       copied d [''location'', ''lon''] w [''location'', ''lon''] \<and>
       copied d [''location'', ''localtime''] w [''location'', ''localTime'']"
  proof (intro allI impI)
    fix w
    assume "result (getCurrentWeather a upstream tGet tSet L) = Inr w"
    from getCurrentWeather_fetched [OF miss up this]
    show "keysAt w [] = Some [''location'', ''current''] \<and>
       keysAt w [''location'']
         = Some [''name'', ''region'', ''country'', ''lat'', ''lon'', ''localTime''] \<and>
       keysAt w [''current'']
         = Some [''tempC'', ''tempF'', ''condition'', ''windKph'', ''windDir'', ''humidity'',
                 ''feelsLikeC'', ''feelsLikeF'', ''uv'', ''airQuality''] \<and>
       copied d [''current'', ''temp_c''] w [''current'', ''tempC''] \<and>
       copied d [''current'', ''temp_f''] w [''current'', ''tempF''] \<and>
       copied d [''current'', ''condition'', ''text''] w [''current'', ''condition''] \<and>
       copied d [''current'', ''wind_kph''] w [''current'', ''windKph''] \<and>
       copied d [''current'', ''wind_dir''] w [''current'', ''windDir''] \<and>
       copied d [''current'', ''humidity''] w [''current'', ''humidity''] \<and>
       copied d [''current'', ''feelslike_c''] w [''current'', ''feelsLikeC''] \<and>
       copied d [''current'', ''feelslike_f''] w [''current'', ''feelsLikeF''] \<and>
       copied d [''current'', ''uv''] w [''current'', ''uv''] \<and>
       copied d [''current'', ''air_quality''] w [''current'', ''airQuality''] \<and>
       copied d [''location'', ''name''] w [''location'', ''name''] \<and>
       copied d [''location'', ''region''] w [''location'', ''region''] \<and>
       copied d [''location'', ''country''] w [''location'', ''country''] \<and>
       copied d [''location'', ''lat''] w [''location'', ''lat''] \<and>
       copied d [''location'', ''lon''] w [''location'', ''lon''] \<and>
       copied d [''location'', ''localtime''] w [''location'', ''localTime'']"
      by (rule weatherDataOf_fields)
  qed
  show ?thesis
    by (intro conjI succeeds fields)
qed

theorem C6_current_field_mapping_witness:
  "result (getCurrentWeather (WeatherAPI_new ''key'' 100) (\<lambda>r. Resolved sampleCurrent) 0 0 ''Berlin'')
     = Inr sampleWeatherResponse \<and>
   path sampleCurrent [''current'', ''temp_c''] = Some (JNum 18.5) \<and>
   path sampleWeatherResponse [''current'', ''tempC''] = Some (JNum 18.5) \<and>
   copied sampleCurrent [''current'', ''temp_c''] sampleWeatherResponse [''current'', ''tempC''] \<and>
   copied sampleCurrent [''current'', ''air_quality''] sampleWeatherResponse [''current'', ''airQuality''] \<and>
   copied sampleCurrent [''location'', ''localtime''] sampleWeatherResponse [''location'', ''localTime''] \<and>
   keysAt sampleWeatherResponse [''location'']
     = Some [''name'', ''region'', ''country'', ''lat'', ''lon'', ''localTime'']"
proof -
  let ?a = "WeatherAPI_new ''key'' 100"
  let ?u = "\<lambda>r :: request. Resolved sampleCurrent"
  have first: "getCurrentWeather ?a ?u 0 0 ''Berlin'' =
     \<lparr>result = Inr sampleWeatherResponse,
      api = ?a\<lparr>wcache := WeatherCache_set (wcache ?a) 0 (currentKey ''Berlin'') sampleWeatherResponse\<rparr>,
      calls = [currentRequest ?a ''Berlin'']\<rparr>"
    by (rule getCurrentWeather_absent [where d = sampleCurrent]) (simp_all add: weatherDataOf_sample)
  then have ok: "result (getCurrentWeather ?a ?u 0 0 ''Berlin'') = Inr sampleWeatherResponse"
    by simp
  have miss: "\<not> truthy (orNull (fst (WeatherCache_get (wcache ?a) 0 (currentKey ''Berlin''))))"
    by (simp add: get_absent orNull_def)
  have up: "?u (currentRequest ?a ''Berlin'') = Resolved sampleCurrent"
    by simp
  note inst = C6_current_field_mapping [OF miss up, where tSet = 0, THEN conjunct2, rule_format,
      OF ok]
  have v1: "path sampleCurrent [''current'', ''temp_c''] = Some (JNum 18.5)"
    by (simp add: sampleCurrent_def getProp_def)
  have v2: "path sampleWeatherResponse [''current'', ''tempC''] = Some (JNum 18.5)"
    by (simp add: sampleWeatherResponse_def getProp_def)
  from ok v1 v2 inst show ?thesis
    by (intro conjI) (elim conjE, assumption)+
qed

section \<open>Failures of the provider\<close>

lemma getForecast_rejected:
  assumes "\<not> truthy (orNull (fst (WeatherCache_get (wcache a) t (forecastKey L n))))"
    and "u (forecastRequest a L n) = Rejected r"
  shows "getForecast a u t t' L n =
     \<lparr>result = Inl (AxiosError r),
      api = a\<lparr>wcache := snd (WeatherCache_get (wcache a) t (forecastKey L n))\<rparr>,
      calls = [forecastRequest a L n]\<rparr>"
  using assms by (auto simp: getForecast_def Let_def split: prod.splits)

lemma getCurrentWeather_rejected:
  assumes "\<not> truthy (orNull (fst (WeatherCache_get (wcache a) t (currentKey L))))"
    and "u (currentRequest a L) = Rejected r"
  shows "getCurrentWeather a u t t' L =
     \<lparr>result = Inl (AxiosError r),
      api = a\<lparr>wcache := snd (WeatherCache_get (wcache a) t (currentKey L))\<rparr>,
      calls = [currentRequest a L]\<rparr>"
  using assms by (auto simp: getCurrentWeather_def Let_def split: prod.splits)

lemma errorHandler_both:
  assumes "s \<noteq> 0" and "truthy (optProp (optProp body ''error'') ''message'')"
  shows "errorHandler (AxiosError (Some (s, body)))
     = (s, JObj [(''error'', optProp (optProp body ''error'') ''message'')])"
  using assms by (simp add: errorHandler_def)

lemma errorHandler_no_response:
  "errorHandler (AxiosError None)
     = (500, JObj [(''error'', JStr ''An error occurred with the weather service'')])"
  by (simp add: errorHandler_def optProp_def getProp_def)

text \<open>
  Claim C7. Let \<open>getForecast\<close> (or \<open>getCurrentWeather\<close>) find no usable cache entry and call
  the provider, and let that call be rejected with the error \<open>r\<close>. Then the operation fails
  with exactly that error; it has made that one call and no other; every cache entry
  present afterwards was present, and the same, before; and the key of the operation has no
  entry afterwards when the cache read found none or an expired one. The HTTP response is
  \<open>errorHandler\<close>'s: the status and the message of \<open>r\<close> when it has a non-zero status and a
  message, that status with the generic message when it has no message, and 500 with the
  generic message when \<open>r\<close> has no response at all.
\<close>

theorem C7_upstream_failure:
  "(\<not> truthy (orNull (fst (WeatherCache_get (wcache a) t (forecastKey L n)))) \<and>
    u (forecastRequest a L n) = Rejected r \<longrightarrow>
      result (getForecast a u t t' L n) = Inl (AxiosError r) \<and>
      calls (getForecast a u t t' L n) = [forecastRequest a L n] \<and>
      (\<forall>K e. cache (wcache (api (getForecast a u t t' L n))) K = Some e \<longrightarrow>
             cache (wcache a) K = Some e) \<and>
      (fst (WeatherCache_get (wcache a) t (forecastKey L n)) = None \<longrightarrow>
         cache (wcache (api (getForecast a u t t' L n))) (forecastKey L n) = None) \<and>
      respond (getForecast a u t t' L n) = errorHandler (AxiosError r)) \<and>
   (\<not> truthy (orNull (fst (WeatherCache_get (wcache a) t (currentKey L)))) \<and>
    u (currentRequest a L) = Rejected r \<longrightarrow>
      result (getCurrentWeather a u t t' L) = Inl (AxiosError r) \<and>
      calls (getCurrentWeather a u t t' L) = [currentRequest a L] \<and>
      (\<forall>K e. cache (wcache (api (getCurrentWeather a u t t' L))) K = Some e \<longrightarrow>
             cache (wcache a) K = Some e) \<and>
      (fst (WeatherCache_get (wcache a) t (currentKey L)) = None \<longrightarrow>
         cache (wcache (api (getCurrentWeather a u t t' L))) (currentKey L) = None) \<and>
      respond (getCurrentWeather a u t t' L) = errorHandler (AxiosError r)) \<and>
   (\<forall>s body. r = Some (s, body) \<and> s \<noteq> 0 \<and>
        truthy (optProp (optProp body ''error'') ''message'') \<longrightarrow>
        errorHandler (AxiosError r)
          = (s, JObj [(''error'', optProp (optProp body ''error'') ''message'')])) \<and>
   (\<forall>s body. r = Some (s, body) \<and> s \<noteq> 0 \<and>
        \<not> truthy (optProp (optProp body ''error'') ''message'') \<longrightarrow>
        errorHandler (AxiosError r)
          = (s, JObj [(''error'', JStr ''An error occurred with the weather service'')])) \<and>
   (r = None \<longrightarrow>
        errorHandler (AxiosError r)
          = (500, JObj [(''error'', JStr ''An error occurred with the weather service'')]))"
proof -
  have fc: "\<not> truthy (orNull (fst (WeatherCache_get (wcache a) t (forecastKey L n)))) \<and>
    u (forecastRequest a L n) = Rejected r \<longrightarrow>
      result (getForecast a u t t' L n) = Inl (AxiosError r) \<and>
      calls (getForecast a u t t' L n) = [forecastRequest a L n] \<and>
      (\<forall>K e. cache (wcache (api (getForecast a u t t' L n))) K = Some e \<longrightarrow>
             cache (wcache a) K = Some e) \<and>
      (fst (WeatherCache_get (wcache a) t (forecastKey L n)) = None \<longrightarrow>
         cache (wcache (api (getForecast a u t t' L n))) (forecastKey L n) = None) \<and>
      respond (getForecast a u t t' L n) = errorHandler (AxiosError r)"
  proof
    assume h: "\<not> truthy (orNull (fst (WeatherCache_get (wcache a) t (forecastKey L n)))) \<and>
      u (forecastRequest a L n) = Rejected r"
    note out = getForecast_rejected [where u = u and t' = t', OF h [THEN conjunct1] h [THEN conjunct2]]
    show "result (getForecast a u t t' L n) = Inl (AxiosError r) \<and>
      calls (getForecast a u t t' L n) = [forecastRequest a L n] \<and>
      (\<forall>K e. cache (wcache (api (getForecast a u t t' L n))) K = Some e \<longrightarrow>
             cache (wcache a) K = Some e) \<and>
      (fst (WeatherCache_get (wcache a) t (forecastKey L n)) = None \<longrightarrow>
         cache (wcache (api (getForecast a u t t' L n))) (forecastKey L n) = None) \<and>
      respond (getForecast a u t t' L n) = errorHandler (AxiosError r)"
      unfolding out by (simp add: respond_def get_None_absent) (metis get_cache_subset)
  qed
  have cw: "\<not> truthy (orNull (fst (WeatherCache_get (wcache a) t (currentKey L)))) \<and>
    u (currentRequest a L) = Rejected r \<longrightarrow>
      result (getCurrentWeather a u t t' L) = Inl (AxiosError r) \<and>
      calls (getCurrentWeather a u t t' L) = [currentRequest a L] \<and>
      (\<forall>K e. cache (wcache (api (getCurrentWeather a u t t' L))) K = Some e \<longrightarrow>
             cache (wcache a) K = Some e) \<and>
      (fst (WeatherCache_get (wcache a) t (currentKey L)) = None \<longrightarrow>
         cache (wcache (api (getCurrentWeather a u t t' L))) (currentKey L) = None) \<and>
      respond (getCurrentWeather a u t t' L) = errorHandler (AxiosError r)"
  proof
    assume h: "\<not> truthy (orNull (fst (WeatherCache_get (wcache a) t (currentKey L)))) \<and>
      u (currentRequest a L) = Rejected r"
    note out = getCurrentWeather_rejected [where u = u and t' = t', OF h [THEN conjunct1] h [THEN conjunct2]]
    show "result (getCurrentWeather a u t t' L) = Inl (AxiosError r) \<and>
      calls (getCurrentWeather a u t t' L) = [currentRequest a L] \<and>
      (\<forall>K e. cache (wcache (api (getCurrentWeather a u t t' L))) K = Some e \<longrightarrow>
             cache (wcache a) K = Some e) \<and>
      (fst (WeatherCache_get (wcache a) t (currentKey L)) = None \<longrightarrow>
         cache (wcache (api (getCurrentWeather a u t t' L))) (currentKey L) = None) \<and>
      respond (getCurrentWeather a u t t' L) = errorHandler (AxiosError r)"
      unfolding out by (simp add: respond_def get_None_absent) (metis get_cache_subset)
  qed
  have both: "\<forall>s body. r = Some (s, body) \<and> s \<noteq> 0 \<and>
        truthy (optProp (optProp body ''error'') ''message'') \<longrightarrow>
        errorHandler (AxiosError r)
          = (s, JObj [(''error'', optProp (optProp body ''error'') ''message'')])"
    by (simp add: errorHandler_both)
  have status: "\<forall>s body. r = Some (s, body) \<and> s \<noteq> 0 \<and>
        \<not> truthy (optProp (optProp body ''error'') ''message'') \<longrightarrow>
        errorHandler (AxiosError r)
          = (s, JObj [(''error'', JStr ''An error occurred with the weather service'')])"
    by (simp add: errorHandler_def)
  have none: "r = None \<longrightarrow>
        errorHandler (AxiosError r)
          = (500, JObj [(''error'', JStr ''An error occurred with the weather service'')])"
    by (simp add: errorHandler_no_response)
  show ?thesis
    by (intro conjI fc cw both status none)
qed


theorem C7_upstream_failure_witness:
  "result (getForecast
      (api (getForecast (WeatherAPI_new ''key'' 100) (\<lambda>r. Resolved sampleForecast) 0 0 ''Tokyo'' 3))
      (\<lambda>r. Rejected (Some (401, JObj [(''error'', JObj [(''message'', JStr ''Invalid key'')])])))
      200 200 ''Tokyo'' 3)
     = Inl (AxiosError (Some (401, JObj [(''error'', JObj [(''message'', JStr ''Invalid key'')])]))) \<and>
   calls (getForecast
      (api (getForecast (WeatherAPI_new ''key'' 100) (\<lambda>r. Resolved sampleForecast) 0 0 ''Tokyo'' 3))
      (\<lambda>r. Rejected (Some (401, JObj [(''error'', JObj [(''message'', JStr ''Invalid key'')])])))
      200 200 ''Tokyo'' 3)
     = [forecastRequest (WeatherAPI_new ''key'' 100) ''Tokyo'' 3] \<and>
   cache (wcache (api (getForecast
      (api (getForecast (WeatherAPI_new ''key'' 100) (\<lambda>r. Resolved sampleForecast) 0 0 ''Tokyo'' 3))
      (\<lambda>r. Rejected (Some (401, JObj [(''error'', JObj [(''message'', JStr ''Invalid key'')])])))
      200 200 ''Tokyo'' 3))) (forecastKey ''Tokyo'' 3) = None \<and>
   respond (getForecast
      (api (getForecast (WeatherAPI_new ''key'' 100) (\<lambda>r. Resolved sampleForecast) 0 0 ''Tokyo'' 3))
      (\<lambda>r. Rejected (Some (401, JObj [(''error'', JObj [(''message'', JStr ''Invalid key'')])])))
      200 200 ''Tokyo'' 3)
     = (401, JObj [(''error'', JStr ''Invalid key'')]) \<and>
   respond (getCurrentWeather (WeatherAPI_new ''key'' 100) (\<lambda>r. Rejected None) 0 0 ''Berlin'')
     = (500, JObj [(''error'', JStr ''An error occurred with the weather service'')])"
proof -
  let ?a = "WeatherAPI_new ''key'' 100"
  let ?body = "JObj [(''error'', JObj [(''message'', JStr ''Invalid key'')])]"
  let ?r = "Some (401 :: int, ?body)"
  let ?u = "\<lambda>q :: request. Rejected ?r"
  let ?v = "\<lambda>q :: request. Rejected None"
  let ?a1 = "api (getForecast ?a (\<lambda>r. Resolved sampleForecast) 0 0 ''Tokyo'' 3)"
  let ?K = "forecastKey ''Tokyo'' 3"
  have a1: "?a1 = ?a\<lparr>wcache := WeatherCache_set (wcache ?a) 0 ?K sampleForecastResponse\<rparr>"
    by (subst getForecast_absent [where d = sampleForecast])
      (simp_all add: forecastDataOf_sample)
  have got: "fst (WeatherCache_get (wcache ?a1) 200 ?K) = None"
    unfolding a1 by (simp add: WeatherCache_get_def)
  then have miss: "\<not> truthy (orNull (fst (WeatherCache_get (wcache ?a1) 200 ?K)))"
    by (simp add: orNull_def)
  have rej: "?u (forecastRequest ?a1 ''Tokyo'' 3) = Rejected ?r"
    by simp
  have req: "forecastRequest ?a1 ''Tokyo'' 3 = forecastRequest ?a ''Tokyo'' 3"
    by (simp add: forecastRequest_def)
  have msg: "optProp (optProp ?body ''error'') ''message'' = JStr ''Invalid key''"
    by (simp add: optProp_def getProp_def)
  note fc = C7_upstream_failure [where a = ?a1 and u = ?u and r = ?r and t = 200 and t' = 200
      and L = "''Tokyo''" and n = 3, THEN conjunct1, rule_format, OF conjI, OF miss rej]
  note render = C7_upstream_failure [where a = ?a1 and u = ?u and r = ?r and t = 200 and t' = 200
      and L = "''Tokyo''" and n = 3, THEN conjunct2, THEN conjunct2, THEN conjunct1, rule_format,
      where s = 401 and body = ?body]
  have e401: "errorHandler (AxiosError ?r) = (401, JObj [(''error'', JStr ''Invalid key'')])"
    using render by (simp add: msg)
  have miss0: "\<not> truthy (orNull (fst (WeatherCache_get (wcache ?a) 0 (currentKey ''Berlin''))))"
    by (simp add: get_absent orNull_def)
  have rej0: "?v (currentRequest ?a ''Berlin'') = Rejected None"
    by simp
  note cw = C7_upstream_failure [where a = ?a and u = ?v and r = None and t = 0 and t' = 0
      and L = "''Berlin''", THEN conjunct2, THEN conjunct1, rule_format, OF conjI, OF miss0 rej0]
  note generic = C7_upstream_failure [where a = ?a and u = ?v and r = None and t = 0 and t' = 0
      and L = "''Berlin''", THEN conjunct2, THEN conjunct2, THEN conjunct2, THEN conjunct2, rule_format]
  have r1: "result (getForecast ?a1 ?u 200 200 ''Tokyo'' 3) = Inl (AxiosError ?r)"
    using fc by blast
  have r2: "calls (getForecast ?a1 ?u 200 200 ''Tokyo'' 3) = [forecastRequest ?a ''Tokyo'' 3]"
    using fc req by simp
  have r3: "cache (wcache (api (getForecast ?a1 ?u 200 200 ''Tokyo'' 3))) ?K = None"
    using fc got by blast
  have r4: "respond (getForecast ?a1 ?u 200 200 ''Tokyo'' 3)
      = (401, JObj [(''error'', JStr ''Invalid key'')])"
    using fc e401 by simp
  have r5: "respond (getCurrentWeather ?a ?v 0 0 ''Berlin'')
      = (500, JObj [(''error'', JStr ''An error occurred with the weather service'')])"
    using cw generic by simp
  show ?thesis
    by (intro conjI r1 r2 r3 r4 r5)
qed

section \<open>Parsing the day count\<close>

lemma decimal_code:
  assumes "48 \<le> u \<and> u \<le> 57"
  shows "isRadixDigit 10 u" "\<not> isWhiteSpace u" "u \<noteq> of_char CHR ''-''" "u \<noteq> of_char CHR ''+''"
    "u \<noteq> of_char CHR ''x''" "u \<noteq> of_char CHR ''X''"
  using assms by (auto simp: isRadixDigit_def digitValue_def isWhiteSpace_def)

lemma showNat_decimal: "u \<in> set (codes (showNat n)) \<Longrightarrow> 48 \<le> u \<and> u \<le> 57"
  using set_showNat [of n] by (auto simp: codes_def)

lemma codes_not_Nil: "codes s = [] \<longleftrightarrow> s = []"
  by (simp add: codes_def)

lemma parse_digits:
  assumes nonempty: "Z \<noteq> []" and dec: "\<forall>u \<in> set Z. 48 \<le> u \<and> u \<le> 57"
  shows "parseInt Z =
      (if int (radixValue 10 Z) < safeLimit then Exact (int (radixValue 10 Z)) else Large)"
    and "parseInt (of_char CHR ''-'' # Z) =
      (if int (radixValue 10 Z) < safeLimit then Exact (- int (radixValue 10 Z)) else Large)"
proof -
  from nonempty obtain z zs where Z: "Z = z # zs" by (cases Z) auto
  with dec have z: "48 \<le> z \<and> z \<le> 57" by simp
  have nohex: "take 2 Z \<noteq> codes ''0x''" "take 2 Z \<noteq> codes ''0X''"
  proof -
    show "take 2 Z \<noteq> codes ''0x''"
    proof
      assume "take 2 Z = codes ''0x''"
      then have "of_char CHR ''x'' \<in> set (take 2 Z)" by (simp add: codes_def)
      then have "of_char CHR ''x'' \<in> set Z" by (rule in_set_takeD)
      with dec show False using decimal_code(5) by blast
    qed
    show "take 2 Z \<noteq> codes ''0X''"
    proof
      assume "take 2 Z = codes ''0X''"
      then have "of_char CHR ''X'' \<in> set (take 2 Z)" by (simp add: codes_def)
      then have "of_char CHR ''X'' \<in> set Z" by (rule in_set_takeD)
      with dec show False using decimal_code(6) by blast
    qed
  qed
  have all: "takeWhile (isRadixDigit 10) Z = Z"
    using dec decimal_code(1) by (simp add: takeWhile_eq_all_conv)
  have ws: "dropWhile isWhiteSpace Z = Z"
    using decimal_code(2) [OF z] by (simp add: Z)
  have hd: "hd Z \<noteq> of_char CHR ''-''" "hd Z \<noteq> of_char CHR ''+''"
    using decimal_code(3,4) [OF z] by (simp_all add: Z)
  show "parseInt Z =
      (if int (radixValue 10 Z) < safeLimit then Exact (int (radixValue 10 Z)) else Large)"
    using nonempty nohex hd by (simp add: parseInt_def ws Let_def all)
  have ws': "\<not> isWhiteSpace (of_char CHR ''-'')"
    by (simp add: isWhiteSpace_def)
  show "parseInt (of_char CHR ''-'' # Z) =
      (if int (radixValue 10 Z) < safeLimit then Exact (- int (radixValue 10 Z)) else Large)"
    using nonempty nohex ws' by (simp add: parseInt_def Let_def all)
qed

lemma parseInt_showInt:
  assumes "\<bar>n\<bar> < safeLimit"
  shows "parseInt (codes (showInt n)) = Exact n"
proof (cases "n < 0")
  case True
  have c: "codes (showInt n) = of_char CHR ''-'' # codes (showNat (nat (- n)))"
    using True by (simp add: showInt_def codes_def)
  have p: "parseInt (of_char CHR ''-'' # codes (showNat (nat (- n)))) =
      (if int (radixValue 10 (codes (showNat (nat (- n))))) < safeLimit
       then Exact (- int (radixValue 10 (codes (showNat (nat (- n)))))) else Large)"
    by (rule parse_digits(2)) (auto simp: showNat_not_Nil codes_not_Nil dest: showNat_decimal)
  show ?thesis
    unfolding c p radixValue_showNat using True assms by simp
next
  case False
  have c: "codes (showInt n) = codes (showNat (nat n))"
    using False by (simp add: showInt_def)
  have p: "parseInt (codes (showNat (nat n))) =
      (if int (radixValue 10 (codes (showNat (nat n)))) < safeLimit
       then Exact (int (radixValue 10 (codes (showNat (nat n))))) else Large)"
    by (rule parse_digits(1)) (auto simp: showNat_not_Nil codes_not_Nil dest: showNat_decimal)
  show ?thesis
    unfolding c p radixValue_showNat using False assms by simp
qed

lemma parseInt_no_digit:
  assumes "\<forall>u \<in> set s. \<not> isRadixDigit 10 u"
  shows "parseInt s = NaN"
proof -
  let ?S = "dropWhile isWhiteSpace s"
  let ?S1 = "if ?S \<noteq> [] \<and> (hd ?S = of_char CHR ''+'' \<or> hd ?S = of_char CHR ''-'')
             then tl ?S else ?S"
  have sub: "set ?S1 \<subseteq> set s"
    using set_dropWhileD [of _ isWhiteSpace s] list.set_sel(2) [of ?S] by auto
  have zero: "isRadixDigit 10 (of_char CHR ''0'')"
    by (simp add: isRadixDigit_def digitValue_def)
  have nohex: "take 2 ?S1 \<noteq> codes ''0x''" "take 2 ?S1 \<noteq> codes ''0X''"
  proof -
    show "take 2 ?S1 \<noteq> codes ''0x''"
    proof
      assume "take 2 ?S1 = codes ''0x''"
      then have "of_char CHR ''0'' \<in> set (take 2 ?S1)" by (simp add: codes_def)
      then have "of_char CHR ''0'' \<in> set ?S1" by (rule in_set_takeD)
      with sub assms zero show False by blast
    qed
    show "take 2 ?S1 \<noteq> codes ''0X''"
    proof
      assume "take 2 ?S1 = codes ''0X''"
      then have "of_char CHR ''0'' \<in> set (take 2 ?S1)" by (simp add: codes_def)
      then have "of_char CHR ''0'' \<in> set ?S1" by (rule in_set_takeD)
      with sub assms zero show False by blast
    qed
  qed
  have "takeWhile (isRadixDigit 10) ?S1 = []"
  proof (cases "?S1 = []")
    case True
    then show ?thesis by simp
  next
    case False
    then have "hd ?S1 \<in> set ?S1" by (rule hd_in_set)
    with sub assms have "\<not> isRadixDigit 10 (hd ?S1)" by blast
    then show ?thesis by (simp add: takeWhile_eq_Nil_iff)
  qed
  with nohex show ?thesis
    by (simp add: parseInt_def Let_def)
qed

lemma forecastDays_absent: "forecastDays None = Exact 3"
proof -
  have "parseInt (codes ''undefined'') = NaN"
    by (rule parseInt_no_digit) (simp add: isRadixDigit_def digitValue_def codes_def)
  then show ?thesis by (simp add: forecastDays_def argToString_def)
qed

lemmas parse_eval = parseInt_def isWhiteSpace_def isRadixDigit_def digitValue_def radixValue_def
  argToString_def codes_def safeLimit_def

lemma route_forecast_unfold:
  "forecastDays q = Exact days \<Longrightarrow>
   route_forecast a u t t' L q =
     Some (respond (getForecast a u t t' L days),
           api (getForecast a u t t' L days),
           calls (getForecast a u t t' L days))"
  by (simp add: route_forecast_def Let_def)

text \<open>
  Claim C8, as the code has it. \<open>GET /api/weather/forecast/:location?days=N\<close> calls
  \<open>getForecast\<close> with the location and with the day count, and responds with what it
  returns. The day count is the number that \<open>parseInt\<close> reads from the \<open>days\<close> parameter
  when that number is not 0; so a non-zero integer below \<open>2\<^sup>5\<^sup>3\<close> in magnitude written in
  decimal arrives as it is. The day count is 3 when the parameter is absent and when
  \<open>parseInt\<close> reads no number from it (its result is \<open>NaN\<close>), as for every string without a
  decimal digit.
\<close>

theorem C8_forecast_days:
  "(\<forall>days. forecastDays q = Exact days \<longrightarrow>
        route_forecast a u t t' L q
          = Some (respond (getForecast a u t t' L days),
                  api (getForecast a u t t' L days),
                  calls (getForecast a u t t' L days))) \<and>
   (\<forall>x. parseInt (argToString q) = x \<and> x \<noteq> NaN \<and> x \<noteq> Exact 0 \<longrightarrow> forecastDays q = x) \<and>
   (\<forall>n. n \<noteq> 0 \<and> \<bar>n\<bar> < safeLimit \<longrightarrow>
        forecastDays (Some (QString (codes (showInt n)))) = Exact n) \<and>
   (parseInt (argToString q) = NaN \<longrightarrow> forecastDays q = Exact 3) \<and>
   forecastDays None = Exact 3 \<and>
   (\<forall>s. (\<forall>u \<in> set s. \<not> isRadixDigit 10 u) \<longrightarrow> forecastDays (Some (QString s)) = Exact 3)"
proof -
  have route: "\<forall>days. forecastDays q = Exact days \<longrightarrow>
        route_forecast a u t t' L q
          = Some (respond (getForecast a u t t' L days),
                  api (getForecast a u t t' L days),
                  calls (getForecast a u t t' L days))"
    by (simp add: route_forecast_unfold)
  have parsed: "\<forall>x. parseInt (argToString q) = x \<and> x \<noteq> NaN \<and> x \<noteq> Exact 0 \<longrightarrow>
      forecastDays q = x"
    by (auto simp: forecastDays_def split: number.splits)
  have decimal: "\<forall>n. n \<noteq> 0 \<and> \<bar>n\<bar> < safeLimit \<longrightarrow>
      forecastDays (Some (QString (codes (showInt n)))) = Exact n"
    by (simp add: forecastDays_def argToString_def parseInt_showInt)
  have nan: "parseInt (argToString q) = NaN \<longrightarrow> forecastDays q = Exact 3"
    by (simp add: forecastDays_def)
  have nodigit: "\<forall>s. (\<forall>u \<in> set s. \<not> isRadixDigit 10 u) \<longrightarrow>
      forecastDays (Some (QString s)) = Exact 3"
    by (simp add: forecastDays_def argToString_def parseInt_no_digit)
  show ?thesis
    by (intro conjI route parsed decimal nan forecastDays_absent nodigit)
qed

theorem C8_forecast_days_witness:
  "parseInt (argToString (Some (QString (codes ''5'')))) = Exact 5 \<and>
   forecastDays (Some (QString (codes ''5''))) = Exact 5 \<and>
   forecastDays (Some (QString (codes ''5abc''))) = Exact 5 \<and>
   forecastDays (Some (QString [0xA0, 0x35])) = Exact 5 \<and>
   forecastDays (Some (QString (codes ''9007199254740993''))) = Large \<and>
   forecastDays (Some (QString (codes ''abc''))) = Exact 3 \<and>
   forecastDays None = Exact 3 \<and>
   calls (getForecast (WeatherAPI_new ''key'' 100) forecastProvider 0 0 ''Tokyo'' 5)
     = [forecastRequest (WeatherAPI_new ''key'' 100) ''Tokyo'' 5] \<and>
   route_forecast (WeatherAPI_new ''key'' 100) forecastProvider 0 0 ''Tokyo''
       (Some (QString (codes ''5'')))
     = Some (respond (getForecast (WeatherAPI_new ''key'' 100) forecastProvider 0 0 ''Tokyo'' 5),
        api (getForecast (WeatherAPI_new ''key'' 100) forecastProvider 0 0 ''Tokyo'' 5),
        calls (getForecast (WeatherAPI_new ''key'' 100) forecastProvider 0 0 ''Tokyo'' 5))"
proof -
  let ?a = "WeatherAPI_new ''key'' 100"
  let ?u = "forecastProvider"
  note five = C8_forecast_days [where a = ?a and u = ?u and t = 0 and t' = 0 and L = "''Tokyo''"
      and q = "Some (QString (codes ''5''))"]
  note tail = C8_forecast_days [where a = ?a and u = ?u and t = 0 and t' = 0 and L = "''Tokyo''"
      and q = "Some (QString (codes ''5abc''))"]
  note nbsp = C8_forecast_days [where a = ?a and u = ?u and t = 0 and t' = 0 and L = "''Tokyo''"
      and q = "Some (QString [0xA0, 0x35])"]
  note big = C8_forecast_days [where a = ?a and u = ?u and t = 0 and t' = 0 and L = "''Tokyo''"
      and q = "Some (QString (codes ''9007199254740993''))"]
  note abc = C8_forecast_days [where a = ?a and u = ?u and t = 0 and t' = 0 and L = "''Tokyo''"
      and q = "Some (QString (codes ''abc''))"]
  have p5: "parseInt (argToString (Some (QString (codes ''5'')))) = Exact 5"
    by (simp add: parse_eval)
  with five have d5: "forecastDays (Some (QString (codes ''5''))) = Exact 5"
    by simp
  have "parseInt (argToString (Some (QString (codes ''5abc'')))) = Exact 5"
    by (simp add: parse_eval)
  with tail have dt: "forecastDays (Some (QString (codes ''5abc''))) = Exact 5"
    by simp
  have "parseInt (argToString (Some (QString [0xA0, 0x35]))) = Exact 5"
    by (simp add: parse_eval)
  with nbsp have dn: "forecastDays (Some (QString [0xA0, 0x35])) = Exact 5"
    by simp
  have "parseInt (argToString (Some (QString (codes ''9007199254740993'')))) = Large"
    by (simp add: parse_eval)
  with big have db: "forecastDays (Some (QString (codes ''9007199254740993''))) = Large"
    by simp
  have "parseInt (argToString (Some (QString (codes ''abc'')))) = NaN"
    by (simp add: parse_eval)
  with abc have d3: "forecastDays (Some (QString (codes ''abc''))) = Exact 3"
    by blast
  from five have d0: "forecastDays None = Exact 3"
    by blast
  have c: "calls (getForecast ?a ?u 0 0 ''Tokyo'' 5) = [forecastRequest ?a ''Tokyo'' 5]"
    by (subst getForecast_absent [where d = sampleForecast])
      (simp_all add: forecastDataOf_sample forecastProvider_def)
  from five d5 have r: "route_forecast ?a ?u 0 0 ''Tokyo'' (Some (QString (codes ''5'')))
     = Some (respond (getForecast ?a ?u 0 0 ''Tokyo'' 5), api (getForecast ?a ?u 0 0 ''Tokyo'' 5),
        calls (getForecast ?a ?u 0 0 ''Tokyo'' 5))"
    by blast
  show ?thesis
    by (intro conjI p5 d5 dt dn db d3 d0 c r)
qed

theorem C8_days_zero_counterexample:
  "parseInt (argToString (Some (QString (codes ''0'')))) = Exact 0 \<and>
   forecastDays (Some (QString (codes ''0''))) = Exact 3 \<and>
   route_forecast (WeatherAPI_new ''key'' 100) forecastProvider 0 0 ''Tokyo''
       (Some (QString (codes ''0'')))
     = Some (respond (getForecast (WeatherAPI_new ''key'' 100) forecastProvider 0 0 ''Tokyo'' 3),
        api (getForecast (WeatherAPI_new ''key'' 100) forecastProvider 0 0 ''Tokyo'' 3),
        calls (getForecast (WeatherAPI_new ''key'' 100) forecastProvider 0 0 ''Tokyo'' 3)) \<and>
   calls (getForecast (WeatherAPI_new ''key'' 100) forecastProvider 0 0 ''Tokyo'' 3)
     = [\<lparr>url = ''http://api.weatherapi.com/v1/forecast.json'',
         params = [(''key'', JStr ''key''), (''q'', JStr ''Tokyo''), (''days'', JNum 3),
                   (''aqi'', JStr ''yes'')]\<rparr>]"
proof -
  let ?a = "WeatherAPI_new ''key'' 100"
  let ?u = "forecastProvider"
  have p0: "parseInt (argToString (Some (QString (codes ''0'')))) = Exact 0"
    by (simp add: parse_eval)
  then have d: "forecastDays (Some (QString (codes ''0''))) = Exact 3"
    by (simp add: forecastDays_def)
  have r: "route_forecast ?a ?u 0 0 ''Tokyo'' (Some (QString (codes ''0'')))
     = Some (respond (getForecast ?a ?u 0 0 ''Tokyo'' 3), api (getForecast ?a ?u 0 0 ''Tokyo'' 3),
        calls (getForecast ?a ?u 0 0 ''Tokyo'' 3))"
    using d by (rule route_forecast_unfold)
  have c: "calls (getForecast ?a ?u 0 0 ''Tokyo'' 3) = [forecastRequest ?a ''Tokyo'' 3]"
    by (subst getForecast_absent [where d = sampleForecast])
      (simp_all add: forecastDataOf_sample forecastProvider_def)
  have q: "forecastRequest ?a ''Tokyo'' 3 = \<lparr>url = ''http://api.weatherapi.com/v1/forecast.json'',
         params = [(''key'', JStr ''key''), (''q'', JStr ''Tokyo''), (''days'', JNum 3),
                   (''aqi'', JStr ''yes'')]\<rparr>"
    by (simp add: forecastRequest_def WeatherAPI_new_def)
  show ?thesis
    by (intro conjI p0 d r c [unfolded q])
qed

section \<open>Reachable gateways\<close>

lemma reachable_getCurrentWeather:
  assumes "reachable a"
  shows "reachable (api (getCurrentWeather a u t t' L))"
proof -
  let ?c1 = "snd (WeatherCache_get (wcache a) t (currentKey L))"
  let ?a1 = "a\<lparr>wcache := ?c1\<rparr>"
  have r1: "reachable ?a1" using assms by (rule reachable.read)
  have "api (getCurrentWeather a u t t' L) = ?a1 \<or>
    (\<exists>d w. weatherDataOf d = Some w \<and>
       api (getCurrentWeather a u t t' L)
         = ?a1\<lparr>wcache := WeatherCache_set (wcache ?a1) t' (currentKey L) w\<rparr>)"
    by (auto simp: getCurrentWeather_def Let_def split: prod.splits reply.splits option.splits)
  then show ?thesis
    using r1 reachable.storeCurrent [OF r1] by auto
qed

lemma reachable_getForecast:
  assumes "reachable a"
  shows "reachable (api (getForecast a u t t' L n))"
proof -
  let ?c1 = "snd (WeatherCache_get (wcache a) t (forecastKey L n))"
  let ?a1 = "a\<lparr>wcache := ?c1\<rparr>"
  have r1: "reachable ?a1" using assms by (rule reachable.read)
  have "api (getForecast a u t t' L n) = ?a1 \<or>
    (\<exists>d w. forecastDataOf d = Some w \<and>
       api (getForecast a u t t' L n)
         = ?a1\<lparr>wcache := WeatherCache_set (wcache ?a1) t' (forecastKey L n) w\<rparr>)"
    by (auto simp: getForecast_def Let_def split: prod.splits reply.splits option.splits)
  then show ?thesis
    using r1 reachable.storeForecast [OF r1] by auto
qed

lemma reachable_searchLocations:
  "reachable a \<Longrightarrow> reachable (api (searchLocations a u q))"
  by (simp add: searchLocations_def split: reply.splits)

lemma weatherDataOf_location:
  assumes "weatherDataOf d = Some w"
  shows "keysAt w [''location'']
     = Some [''name'', ''region'', ''country'', ''lat'', ''lon'', ''localTime'']"
  using weatherDataOf_SomeD [OF assms] by (auto simp: keysAt_def getProp_def)

lemma forecastDataOf_location:
  assumes "forecastDataOf d = Some w"
  shows "keysAt w [''location''] = Some [''name'', ''region'', ''country'', ''lat'', ''lon'']"
    and "path w [''location'', ''localTime''] = Some JUndefined"
  using assms unfolding forecastDataOf_def
  by (auto simp: bind_eq_Some_conv keysAt_def getProp_def)

lemma reachable_shaped:
  assumes "reachable a" and "cache (wcache a) K = Some e"
  shows "(K = currentKey L \<longrightarrow> keysAt (data e) [''location'']
            = Some [''name'', ''region'', ''country'', ''lat'', ''lon'', ''localTime'']) \<and>
         (K = forecastKey L n \<longrightarrow>
            keysAt (data e) [''location'']
              = Some [''name'', ''region'', ''country'', ''lat'', ''lon''] \<and>
            path (data e) [''location'', ''localTime''] = Some JUndefined)"
  using assms
proof (induction arbitrary: K e rule: reachable.induct)
  case (created key cacheDurationMs)
  then show ?case by simp
next
  case (read a now K')
  from read.prems have "cache (wcache a) K = Some e"
    by (auto dest: get_cache_subset)
  then show ?case by (rule read.IH)
next
  case (storeCurrent a d weatherData now location)
  show ?case
  proof (cases "K = currentKey location")
    case True
    with storeCurrent.prems have "data e = weatherData" by auto
    with True weatherDataOf_location [OF storeCurrent.hyps(2)] show ?thesis
      using current_not_forecast [of location L n] by simp
  next
    case False
    with storeCurrent.prems have "cache (wcache a) K = Some e" by simp
    then show ?thesis by (rule storeCurrent.IH)
  qed
next
  case (storeForecast a d forecastData now location days)
  show ?case
  proof (cases "K = forecastKey location days")
    case True
    with storeForecast.prems have "data e = forecastData" by auto
    with True forecastDataOf_location [OF storeForecast.hyps(2)] show ?thesis
      using current_not_forecast [of L location days] by auto
  next
    case False
    with storeForecast.prems have "cache (wcache a) K = Some e" by simp
    then show ?thesis by (rule storeForecast.IH)
  qed
qed

lemma weatherDataOf_localTime:
  assumes "weatherDataOf d = Some w"
  shows "copied d [''location'', ''localtime''] w [''location'', ''localTime'']"
  using weatherDataOf_SomeD [OF assms] by (auto simp: copied_def getProp_def)

text \<open>
  Claim C9. In every gateway a running server can hold, a forecast returned by
  \<open>getForecast\<close>, fetched or cached, has a \<open>location\<close> with exactly the properties \<open>name\<close>,
  \<open>region\<close>, \<open>country\<close>, \<open>lat\<close>, \<open>lon\<close>; reading its \<open>localTime\<close> gives \<open>undefined\<close>. A
  snapshot returned by \<open>getCurrentWeather\<close> has a \<open>location\<close> with those five and
  \<open>localTime\<close>, which on a fetch holds the provider's \<open>localtime\<close>.
\<close>

theorem C9_forecast_location_without_localTime:
  assumes "reachable a"
  shows
    "(\<forall>w. result (getForecast a u t t' L n) = Inr w \<longrightarrow>
        keysAt w [''location''] = Some [''name'', ''region'', ''country'', ''lat'', ''lon''] \<and>
        path w [''location'', ''localTime''] = Some JUndefined) \<and>
     (\<forall>w. result (getCurrentWeather a u t t' L) = Inr w \<longrightarrow>
        keysAt w [''location'']
          = Some [''name'', ''region'', ''country'', ''lat'', ''lon'', ''localTime'']) \<and>
     (\<forall>d w. \<not> truthy (orNull (fst (WeatherCache_get (wcache a) t (currentKey L)))) \<and>
        u (currentRequest a L) = Resolved d \<and>
        result (getCurrentWeather a u t t' L) = Inr w \<longrightarrow>
        copied d [''location'', ''localtime''] w [''location'', ''localTime''])"
proof -
  have fc: "\<forall>w. result (getForecast a u t t' L n) = Inr w \<longrightarrow>
        keysAt w [''location''] = Some [''name'', ''region'', ''country'', ''lat'', ''lon''] \<and>
        path w [''location'', ''localTime''] = Some JUndefined"
  proof (intro allI impI)
    fix w
    assume ok: "result (getForecast a u t t' L n) = Inr w"
    show "keysAt w [''location''] = Some [''name'', ''region'', ''country'', ''lat'', ''lon''] \<and>
        path w [''location'', ''localTime''] = Some JUndefined"
    proof (cases "truthy (orNull (fst (WeatherCache_get (wcache a) t (forecastKey L n))))")
      case True
      with ok have w: "w = orNull (fst (WeatherCache_get (wcache a) t (forecastKey L n)))"
        by (simp add: getForecast_result)
      from True obtain v where v: "fst (WeatherCache_get (wcache a) t (forecastKey L n)) = Some v"
        by (cases "fst (WeatherCache_get (wcache a) t (forecastKey L n))") (auto simp: orNull_def)
      from get_Some_unchanged [OF v] obtain e where
        e: "cache (wcache a) (forecastKey L n) = Some e" "data e = v"
        by blast
      from w v e(2) have "w = data e" by (simp add: orNull_def)
      with reachable_shaped [OF assms e(1), where L = L and n = n] show ?thesis by simp
    next
      case False
      with ok obtain d where "forecastDataOf d = Some w"
        by (auto simp: getForecast_result split: reply.splits option.splits)
      from forecastDataOf_location [OF this] show ?thesis by (intro conjI)
    qed
  qed
  have cw: "\<forall>w. result (getCurrentWeather a u t t' L) = Inr w \<longrightarrow>
        keysAt w [''location'']
          = Some [''name'', ''region'', ''country'', ''lat'', ''lon'', ''localTime'']"
  proof (intro allI impI)
    fix w
    assume ok: "result (getCurrentWeather a u t t' L) = Inr w"
    show "keysAt w [''location'']
          = Some [''name'', ''region'', ''country'', ''lat'', ''lon'', ''localTime'']"
    proof (cases "truthy (orNull (fst (WeatherCache_get (wcache a) t (currentKey L))))")
      case True
      with ok have w: "w = orNull (fst (WeatherCache_get (wcache a) t (currentKey L)))"
        by (simp add: getCurrentWeather_result)
      from True obtain v where v: "fst (WeatherCache_get (wcache a) t (currentKey L)) = Some v"
        by (cases "fst (WeatherCache_get (wcache a) t (currentKey L))") (auto simp: orNull_def)
      from get_Some_unchanged [OF v] obtain e where
        e: "cache (wcache a) (currentKey L) = Some e" "data e = v"
        by blast
      from w v e(2) have "w = data e" by (simp add: orNull_def)
      with reachable_shaped [OF assms e(1), where L = L and n = n] show ?thesis by simp
    next
      case False
      with ok obtain d where "weatherDataOf d = Some w"
        by (auto simp: getCurrentWeather_result split: reply.splits option.splits)
      then show ?thesis by (rule weatherDataOf_location)
    qed
  qed
  have lt: "\<forall>d w. \<not> truthy (orNull (fst (WeatherCache_get (wcache a) t (currentKey L)))) \<and>
        u (currentRequest a L) = Resolved d \<and>
        result (getCurrentWeather a u t t' L) = Inr w \<longrightarrow>
        copied d [''location'', ''localtime''] w [''location'', ''localTime'']"
  proof (intro allI impI)
    fix d w
    assume h: "\<not> truthy (orNull (fst (WeatherCache_get (wcache a) t (currentKey L)))) \<and>
        u (currentRequest a L) = Resolved d \<and>
        result (getCurrentWeather a u t t' L) = Inr w"
    then have "weatherDataOf d = Some w"
      using getCurrentWeather_fetched [of a t L u d t' w] by blast
    then show "copied d [''location'', ''localtime''] w [''location'', ''localTime'']"
      by (rule weatherDataOf_localTime)
  qed
  show ?thesis
    by (intro conjI fc cw lt)
qed

theorem C9_forecast_location_without_localTime_witness:
  "reachable (api (getForecast (WeatherAPI_new ''key'' 100) (\<lambda>r. Resolved sampleForecast) 0 0 ''Tokyo'' 3)) \<and>
   result (getForecast
       (api (getForecast (WeatherAPI_new ''key'' 100) (\<lambda>r. Resolved sampleForecast) 0 0 ''Tokyo'' 3))
       (\<lambda>r. Rejected None) 50 50 ''Tokyo'' 3)
     = Inr sampleForecastResponse \<and>
   keysAt sampleForecastResponse [''location'']
     = Some [''name'', ''region'', ''country'', ''lat'', ''lon''] \<and>
   path sampleForecastResponse [''location'', ''localTime''] = Some JUndefined \<and>
   result (getCurrentWeather (WeatherAPI_new ''key'' 100) (\<lambda>r. Resolved sampleCurrent) 0 0 ''Berlin'')
     = Inr sampleWeatherResponse \<and>
   keysAt sampleWeatherResponse [''location'']
     = Some [''name'', ''region'', ''country'', ''lat'', ''lon'', ''localTime''] \<and>
   path sampleWeatherResponse [''location'', ''localTime''] = Some (JStr ''2024-05-01 12:00'')"
proof -
  let ?a = "WeatherAPI_new ''key'' 100"
  let ?uf = "\<lambda>r :: request. Resolved sampleForecast"
  let ?uc = "\<lambda>r :: request. Resolved sampleCurrent"
  let ?down = "\<lambda>r :: request. Rejected None"
  let ?K = "forecastKey ''Tokyo'' 3"
  let ?a1 = "api (getForecast ?a ?uf 0 0 ''Tokyo'' 3)"
  have r0: "reachable ?a" by (rule reachable.created)
  then have r1: "reachable ?a1" by (rule reachable_getForecast)
  have a1: "?a1 = ?a\<lparr>wcache := WeatherCache_set (wcache ?a) 0 ?K sampleForecastResponse\<rparr>"
    by (subst getForecast_absent [where d = sampleForecast])
      (simp_all add: forecastDataOf_sample)
  have entry: "cache (wcache ?a1) ?K = Some \<lparr>data = sampleForecastResponse, timestamp = 0\<rparr>"
    unfolding a1 by simp
  have hit: "getForecast ?a1 ?down 50 50 ''Tokyo'' 3
      = \<lparr>result = Inr sampleForecastResponse, api = ?a1, calls = []\<rparr>"
    using getForecast_hit [OF entry, of 50 ?down 50]
    by (simp add: a1 sampleForecastResponse_def)
  then have ok: "result (getForecast ?a1 ?down 50 50 ''Tokyo'' 3) = Inr sampleForecastResponse"
    by simp
  note fc = C9_forecast_location_without_localTime [OF r1, where u = ?down and t = 50 and t' = 50
      and L = "''Tokyo''" and n = 3, THEN conjunct1, rule_format, OF ok]
  have okc: "result (getCurrentWeather ?a ?uc 0 0 ''Berlin'') = Inr sampleWeatherResponse"
    by (subst getCurrentWeather_absent [where d = sampleCurrent])
      (simp_all add: weatherDataOf_sample)
  note cw = C9_forecast_location_without_localTime [OF r0, where u = ?uc and t = 0 and t' = 0
      and L = "''Berlin''", THEN conjunct2, THEN conjunct1, rule_format, OF okc]
  have lt: "path sampleWeatherResponse [''location'', ''localTime'']
      = Some (JStr ''2024-05-01 12:00'')"
    by (simp add: sampleWeatherResponse_def getProp_def)
  show ?thesis
    by (intro conjI r1 ok fc [THEN conjunct1] fc [THEN conjunct2] okc cw lt)
qed

section \<open>Zero and negative day counts\<close>

text \<open>
  Claim C10. A \<open>days\<close> parameter from which \<open>parseInt\<close> reads 0, such as \<open>?days=0\<close>, gives
  the day count 3. A negative integer read from it (one above \<open>- 2\<^sup>5\<^sup>3\<close>, which \<open>parseInt\<close>
  returns exactly) is the day count \<open>getForecast\<close> is called with, and \<open>getForecast\<close> does
  not check it: on a cache miss it asks the provider for that many days.
\<close>

theorem C10_zero_and_negative_days:
  "(parseInt (argToString q) = Exact 0 \<longrightarrow> forecastDays q = Exact 3) \<and>
   forecastDays (Some (QString (codes ''0''))) = Exact 3 \<and>
   (\<forall>n. parseInt (argToString q) = Exact n \<and> n < 0 \<longrightarrow>
        forecastDays q = Exact n \<and>
        route_forecast a u t t' L q
          = Some (respond (getForecast a u t t' L n), api (getForecast a u t t' L n),
                  calls (getForecast a u t t' L n))) \<and>
   (\<forall>n. n < 0 \<and> - safeLimit < n \<longrightarrow>
        forecastDays (Some (QString (codes (showInt n)))) = Exact n) \<and>
   (\<forall>n. n < 0 \<and> - safeLimit < n \<and>
        \<not> truthy (orNull (fst (WeatherCache_get (wcache a) t (forecastKey L n)))) \<longrightarrow>
        calls (getForecast a u t t' L n) = [forecastRequest a L n] \<and>
        map_of (params (forecastRequest a L n)) ''days'' = Some (JNum (of_int n)))"
proof -
  have zero: "parseInt (argToString q) = Exact 0 \<longrightarrow> forecastDays q = Exact 3"
    by (simp add: forecastDays_def)
  have zero': "forecastDays (Some (QString (codes ''0''))) = Exact 3"
    by (simp add: forecastDays_def parse_eval)
  have neg: "\<forall>n. parseInt (argToString q) = Exact n \<and> n < 0 \<longrightarrow>
        forecastDays q = Exact n \<and>
        route_forecast a u t t' L q
          = Some (respond (getForecast a u t t' L n), api (getForecast a u t t' L n),
                  calls (getForecast a u t t' L n))"
    by (simp add: forecastDays_def route_forecast_def Let_def)
  have neg': "\<forall>n. n < 0 \<and> - safeLimit < n \<longrightarrow>
      forecastDays (Some (QString (codes (showInt n)))) = Exact n"
    by (simp add: forecastDays_def argToString_def parseInt_showInt)
  have nocheck: "\<forall>n. n < 0 \<and> - safeLimit < n \<and>
        \<not> truthy (orNull (fst (WeatherCache_get (wcache a) t (forecastKey L n)))) \<longrightarrow>
        calls (getForecast a u t t' L n) = [forecastRequest a L n] \<and>
        map_of (params (forecastRequest a L n)) ''days'' = Some (JNum (of_int n))"
    by (simp add: getForecast_calls forecastRequest_def)
  show ?thesis
    by (intro conjI zero zero' neg neg' nocheck)
qed

theorem C10_zero_and_negative_days_witness:
  "parseInt (argToString (Some (QString (codes ''-2'')))) = Exact (- 2) \<and>
   forecastDays (Some (QString (codes ''-2''))) = Exact (- 2) \<and>
   forecastDays (Some (QString (codes ''0''))) = Exact 3 \<and>
   forecastDays (Some (QString (codes ''-0''))) = Exact 3 \<and>
   forecastDays (Some (QString (codes ''0x0''))) = Exact 3 \<and>
   route_forecast (WeatherAPI_new ''key'' 100) (\<lambda>r. Rejected None) 0 0 ''Tokyo''
       (Some (QString (codes ''-2'')))
     = Some (respond (getForecast (WeatherAPI_new ''key'' 100) (\<lambda>r. Rejected None) 0 0 ''Tokyo'' (- 2)),
        api (getForecast (WeatherAPI_new ''key'' 100) (\<lambda>r. Rejected None) 0 0 ''Tokyo'' (- 2)),
        calls (getForecast (WeatherAPI_new ''key'' 100) (\<lambda>r. Rejected None) 0 0 ''Tokyo'' (- 2))) \<and>
   calls (getForecast (WeatherAPI_new ''key'' 100) (\<lambda>r. Rejected None) 0 0 ''Tokyo'' (- 2))
     = [\<lparr>url = ''http://api.weatherapi.com/v1/forecast.json'',
         params = [(''key'', JStr ''key''), (''q'', JStr ''Tokyo''), (''days'', JNum (- 2)),
                   (''aqi'', JStr ''yes'')]\<rparr>]"
proof -
  let ?a = "WeatherAPI_new ''key'' 100"
  let ?u = "\<lambda>r :: request. Rejected None"
  let ?q = "Some (QString (codes ''-2''))"
  note inst = C10_zero_and_negative_days [where a = ?a and u = ?u and t = 0 and t' = 0
      and L = "''Tokyo''" and q = ?q]
  note mzero = C10_zero_and_negative_days [where a = ?a and u = ?u and t = 0 and t' = 0
      and L = "''Tokyo''" and q = "Some (QString (codes ''-0''))"]
  note hex = C10_zero_and_negative_days [where a = ?a and u = ?u and t = 0 and t' = 0
      and L = "''Tokyo''" and q = "Some (QString (codes ''0x0''))"]
  have p: "parseInt (argToString ?q) = Exact (- 2)"
    by (simp add: parse_eval)
  then have h: "parseInt (argToString ?q) = Exact (- 2) \<and> (- 2 :: int) < 0"
    by simp
  from inst h have d: "forecastDays ?q = Exact (- 2)"
    by blast
  from inst h have r: "route_forecast ?a ?u 0 0 ''Tokyo'' ?q
      = Some (respond (getForecast ?a ?u 0 0 ''Tokyo'' (- 2)),
         api (getForecast ?a ?u 0 0 ''Tokyo'' (- 2)),
         calls (getForecast ?a ?u 0 0 ''Tokyo'' (- 2)))"
    by blast
  from inst have z: "forecastDays (Some (QString (codes ''0''))) = Exact 3"
    by blast
  have "parseInt (argToString (Some (QString (codes ''-0'')))) = Exact 0"
    by (simp add: parse_eval)
  with mzero have m: "forecastDays (Some (QString (codes ''-0''))) = Exact 3"
    by blast
  have "parseInt (argToString (Some (QString (codes ''0x0'')))) = Exact 0"
    by (simp add: parse_eval)
  with hex have x: "forecastDays (Some (QString (codes ''0x0''))) = Exact 3"
    by blast
  have "(- 2 :: int) < 0 \<and> - safeLimit < (- 2 :: int) \<and>
      \<not> truthy (orNull (fst (WeatherCache_get (wcache ?a) 0 (forecastKey ''Tokyo'' (- 2)))))"
    by (simp add: get_absent orNull_def safeLimit_def)
  with inst have c: "calls (getForecast ?a ?u 0 0 ''Tokyo'' (- 2)) = [forecastRequest ?a ''Tokyo'' (- 2)]"
    by blast
  have q: "forecastRequest ?a ''Tokyo'' (- 2) = \<lparr>url = ''http://api.weatherapi.com/v1/forecast.json'',
         params = [(''key'', JStr ''key''), (''q'', JStr ''Tokyo''), (''days'', JNum (- 2)),
                   (''aqi'', JStr ''yes'')]\<rparr>"
    by (simp add: forecastRequest_def WeatherAPI_new_def)
  show ?thesis
    by (intro conjI p d z m x r c [unfolded q])
qed

end
